theory Spec2Isabelle
  imports Complex_Main "HOL-Library.AList"
begin

section \<open>JavaScript values used by the calculator\<close>

text \<open>
  A JavaScript \<^verbatim>\<open>number\<close> is an IEEE-754 binary64 value. The model keeps the classes
  of values that the validator and the calculator distinguish: not-a-number, the two
  infinities, negative zero, and the finite values (\<open>Fin 0\<close> is positive zero). Finite
  arithmetic is exact here: the rounding of binary64 results to 53 significant bits, and
  the overflow of huge finite results to an infinity, are not modelled. Comparisons,
  division by zero, the signs of zeros and infinities and the propagation of \<open>NaN\<close>
  follow ECMAScript (Number::multiply, Number::divide, Number::subtract,
  Number::lessThan).

  The general theorems about the validation gate, the error mapping, the formulas of the
  two pipelines and the presence of fields use no property of the three arithmetic
  operations: they hold for the rounded operations as well. Exact arithmetic is used
  for the positivity of the baseline profit, which rounding preserves on validated
  inputs, and in the closed examples, whose inputs are chosen so that the values and
  comparisons stated are those of binary64 too.
\<close>

datatype jsnum = NaN | PInf | NInf | NZero | Fin real

definition is_zero :: "jsnum \<Rightarrow> bool" where
  "is_zero x = (x = NZero \<or> x = Fin 0)"

definition is_infinity :: "jsnum \<Rightarrow> bool" where
  "is_infinity x = (x = PInf \<or> x = NInf)"

text \<open>The sign bit, and the mathematical value of a finite number.\<close>

fun negative :: "jsnum \<Rightarrow> bool" where
  "negative NaN = False"
| "negative PInf = False"
| "negative NInf = True"
| "negative NZero = True"
| "negative (Fin r) = (r < 0)"

fun fin_val :: "jsnum \<Rightarrow> real" where
  "fin_val (Fin r) = r"
| "fin_val NaN = 0"
| "fin_val PInf = 0"
| "fin_val NInf = 0"
| "fin_val NZero = 0"

definition signed_zero :: "bool \<Rightarrow> jsnum" where
  "signed_zero neg = (if neg then NZero else Fin 0)"

definition signed_infinity :: "bool \<Rightarrow> jsnum" where
  "signed_infinity neg = (if neg then NInf else PInf)"

definition finite_result :: "bool \<Rightarrow> real \<Rightarrow> jsnum" where
  "finite_result neg r = (if r = 0 then signed_zero neg else Fin r)"

text \<open>\<^verbatim>\<open>x * y\<close>\<close>

definition Number_multiply :: "jsnum \<Rightarrow> jsnum \<Rightarrow> jsnum" where
  "Number_multiply x y =
     (if x = NaN \<or> y = NaN then NaN
      else if is_infinity x \<or> is_infinity y then
        (if is_zero x \<or> is_zero y then NaN
         else signed_infinity (negative x \<noteq> negative y))
      else finite_result (negative x \<noteq> negative y) (fin_val x * fin_val y))"

text \<open>\<^verbatim>\<open>x / y\<close>\<close>

definition Number_divide :: "jsnum \<Rightarrow> jsnum \<Rightarrow> jsnum" where
  "Number_divide x y =
     (if x = NaN \<or> y = NaN then NaN
      else if is_infinity x then
        (if is_infinity y then NaN else signed_infinity (negative x \<noteq> negative y))
      else if is_infinity y then signed_zero (negative x \<noteq> negative y)
      else if is_zero y then
        (if is_zero x then NaN else signed_infinity (negative x \<noteq> negative y))
      else finite_result (negative x \<noteq> negative y) (fin_val x / fin_val y))"

text \<open>\<^verbatim>\<open>x - y\<close>: a zero difference is positive unless it is \<open>(-0) - (+0)\<close>.\<close>

definition Number_subtract :: "jsnum \<Rightarrow> jsnum \<Rightarrow> jsnum" where
  "Number_subtract x y =
     (if x = NaN \<or> y = NaN then NaN
      else if is_infinity x then (if x = y then NaN else x)
      else if is_infinity y then signed_infinity (\<not> negative y)
      else finite_result (x = NZero \<and> y = Fin 0) (fin_val x - fin_val y))"

text \<open>
  \<^verbatim>\<open>x < y\<close> on numbers: false as soon as one side is \<open>NaN\<close>; the two zeros are equal.
  \<^verbatim>\<open>x > y\<close> is \<open>y < x\<close>, and \<^verbatim>\<open>x <= y\<close> is "neither is \<open>NaN\<close> and not \<open>y < x\<close>".
\<close>

fun js_lt :: "jsnum \<Rightarrow> jsnum \<Rightarrow> bool" where
  "js_lt NaN y = False"
| "js_lt x NaN = False"
| "js_lt PInf y = False"
| "js_lt x PInf = True"
| "js_lt x NInf = False"
| "js_lt NInf y = True"
| "js_lt x y = (fin_val x < fin_val y)"

definition js_gt :: "jsnum \<Rightarrow> jsnum \<Rightarrow> bool" where
  "js_gt x y = js_lt y x"

definition js_le :: "jsnum \<Rightarrow> jsnum \<Rightarrow> bool" where
  "js_le x y = (x \<noteq> NaN \<and> y \<noteq> NaN \<and> \<not> js_lt y x)"

text \<open>
  The values a field can hold at run time: the validators test for \<^verbatim>\<open>null\<close> and
  \<^verbatim>\<open>undefined\<close> before they treat their argument as a number.
\<close>

datatype jsval = Undefined | Null | Num jsnum

fun ToNumber :: "jsval \<Rightarrow> jsnum" where
  "ToNumber Undefined = NaN"
| "ToNumber Null = Fin 0"
| "ToNumber (Num n) = n"

definition isNaN :: "jsval \<Rightarrow> bool" where
  "isNaN v = (ToNumber v = NaN)"

text \<open>\<^verbatim>\<open>Number.isInteger\<close> does not coerce: only a finite number with no fraction passes.\<close>

fun Number_isInteger :: "jsval \<Rightarrow> bool" where
  "Number_isInteger (Num (Fin r)) = (r = of_int \<lfloor>r\<rfloor>)"
| "Number_isInteger (Num NZero) = True"
| "Number_isInteger v = False"

text \<open>\<^verbatim>\<open>!v\<close> is \<open>\<not> ToBoolean v\<close>: \<^verbatim>\<open>undefined\<close>, \<^verbatim>\<open>null\<close>, \<open>NaN\<close> and both zeros are falsy.\<close>

fun ToBoolean :: "jsval \<Rightarrow> bool" where
  "ToBoolean Undefined = False"
| "ToBoolean Null = False"
| "ToBoolean (Num n) = (n \<noteq> NaN \<and> \<not> is_zero n)"

text \<open>An optional property that is absent reads as \<^verbatim>\<open>undefined\<close>.\<close>

fun optional :: "jsnum option \<Rightarrow> jsval" where
  "optional None = Undefined"
| "optional (Some n) = Num n"

text \<open>
  The two conversions of a number to text are services of the host:
  \<^verbatim>\<open>n.toLocaleString()\<close> depends on the locale of the run, and a number inside a
  template literal is rendered by Number::toString. Both are parameters of the model.
\<close>

record Host =
  toLocaleString :: "jsnum \<Rightarrow> string"
  toString :: "jsnum \<Rightarrow> string"

text \<open>\<^verbatim>\<open>parts.join(sep)\<close>\<close>

fun join :: "string \<Rightarrow> string list \<Rightarrow> string" where
  "join sep [] = []"
| "join sep [x] = x"
| "join sep (x # y # ys) = x @ sep @ join sep (y # ys)"

section \<open>Data model (types/index.ts)\<close>

datatype BusinessType = traditional | tech

datatype OrganizationSize = small | medium | large | enterprise

type_synonym Date = int

record Scenario =
  id' :: string
  name :: string
  businessType :: BusinessType
  developerCount :: jsnum
  annualCostPerDeveloper :: jsnum
  ctsSwImprovementPercent :: jsnum
  solutionCost :: jsnum
  revenuePercentage :: "jsnum option"
  organizationSize :: "OrganizationSize option"
  notes' :: "string option"
  createdAt :: Date
  updatedAt :: Date

record CalculationStep =
  step :: jsnum
  description :: string
  formula :: string
  calculation :: string
  result :: jsnum
  explanation :: string

record SupportingMetrics =
  deploymentsPerBuilder :: jsnum
  interventionsReduction :: jsnum
  incidentReduction :: jsnum

record CalculationResults =
  scenarioId :: string
  totalDeveloperCost :: jsnum
  costAvoidance :: jsnum
  roiMultiple :: jsnum
  roiPercentage :: jsnum
  grossMarginImprovement :: "jsnum option"
  profitImpact :: "jsnum option"
  profitBoostPercentage :: "jsnum option"
  supportingMetrics :: SupportingMetrics
  calculationSteps :: "CalculationStep list"

text \<open>
  \<^verbatim>\<open>ValidationErrors\<close> is an object used as a dictionary from field name to message.
  \<^verbatim>\<open>Object.keys\<close> and \<^verbatim>\<open>Object.values\<close> enumerate string keys in insertion order, and
  assigning to an existing key keeps its place: an association list updated with
  \<open>AList.update\<close>.
\<close>

type_synonym ValidationErrors = "(string \<times> string) list"

definition Object_keys :: "ValidationErrors \<Rightarrow> string list" where
  "Object_keys obj = map fst obj"

definition Object_values :: "ValidationErrors \<Rightarrow> string list" where
  "Object_values obj = map snd obj"

definition Object_assign :: "ValidationErrors \<Rightarrow> ValidationErrors \<Rightarrow> ValidationErrors" where
  "Object_assign target source = fold (\<lambda>(k, v) obj. AList.update k v obj) source target"

text \<open>\<^verbatim>\<open>if (message) errors[key] = message\<close>: \<^verbatim>\<open>null\<close> and the empty string are falsy.\<close>

definition assign_if_truthy :: "string \<Rightarrow> string option \<Rightarrow> ValidationErrors \<Rightarrow> ValidationErrors" where
  "assign_if_truthy key message errors =
     (case message of
        None \<Rightarrow> errors
      | Some m \<Rightarrow> if m = [] then errors else AList.update key m errors)"

record Range =
  min' :: jsnum
  max' :: jsnum

datatype RangedField =
  DeveloperCount | AnnualCostPerDeveloper | CtsSwImprovementPercent | SolutionCost
  | RevenuePercentage

fun VALIDATION_RANGES :: "RangedField \<Rightarrow> Range" where
  "VALIDATION_RANGES DeveloperCount = \<lparr>min' = Fin 1, max' = Fin 50000\<rparr>"
| "VALIDATION_RANGES AnnualCostPerDeveloper = \<lparr>min' = Fin 50000, max' = Fin 300000\<rparr>"
| "VALIDATION_RANGES CtsSwImprovementPercent = \<lparr>min' = Fin 0.1, max' = Fin 50\<rparr>"
| "VALIDATION_RANGES SolutionCost = \<lparr>min' = Fin 1000, max' = Fin 100000000\<rparr>"
| "VALIDATION_RANGES RevenuePercentage = \<lparr>min' = Fin 0, max' = Fin 100\<rparr>"

section \<open>InputValidator (services/InputValidator.ts)\<close>

definition validateDeveloperCount :: "Host \<Rightarrow> jsval \<Rightarrow> string option" where
  "validateDeveloperCount H count =
     (if count = Null \<or> count = Undefined \<or> isNaN count then
        Some ''Developer count is required and must be a number''
      else if \<not> Number_isInteger count then
        Some ''Developer count must be a whole number (no decimals)''
      else if js_lt (ToNumber count) (min' (VALIDATION_RANGES DeveloperCount)) then
        Some (''Developer count must be at least ''
              @ toString H (min' (VALIDATION_RANGES DeveloperCount)))
      else if js_gt (ToNumber count) (max' (VALIDATION_RANGES DeveloperCount)) then
        Some (''Developer count cannot exceed ''
              @ toLocaleString H (max' (VALIDATION_RANGES DeveloperCount))
              @ '' (consider breaking into smaller teams)'')
      else None)"

definition validateAnnualCostPerDeveloper :: "Host \<Rightarrow> jsval \<Rightarrow> string option" where
  "validateAnnualCostPerDeveloper H cost =
     (if cost = Null \<or> cost = Undefined \<or> isNaN cost then
        Some ''Annual cost per developer is required and must be a number''
      else if js_le (ToNumber cost) (Fin 0) then
        Some ''Annual cost per developer must be greater than zero''
      else if js_lt (ToNumber cost) (min' (VALIDATION_RANGES AnnualCostPerDeveloper)) then
        Some (''Annual cost per developer must be at least $''
              @ toLocaleString H (min' (VALIDATION_RANGES AnnualCostPerDeveloper))
              @ '' (includes salary, benefits, and tooling)'')
      else if js_gt (ToNumber cost) (max' (VALIDATION_RANGES AnnualCostPerDeveloper)) then
        Some (''Annual cost per developer cannot exceed $''
              @ toLocaleString H (max' (VALIDATION_RANGES AnnualCostPerDeveloper))
              @ '' (AWS example: $130K)'')
      else None)"

definition validateCtsSwImprovement :: "Host \<Rightarrow> jsval \<Rightarrow> string option" where
  "validateCtsSwImprovement H improvement =
     (if improvement = Null \<or> improvement = Undefined \<or> isNaN improvement then
        Some ''CTS-SW improvement percentage is required and must be a number''
      else if js_le (ToNumber improvement) (Fin 0) then
        Some ''CTS-SW improvement percentage must be greater than zero''
      else if js_lt (ToNumber improvement) (min' (VALIDATION_RANGES CtsSwImprovementPercent)) then
        Some (''CTS-SW improvement must be at least ''
              @ toString H (min' (VALIDATION_RANGES CtsSwImprovementPercent)) @ ''%'')
      else if js_gt (ToNumber improvement) (max' (VALIDATION_RANGES CtsSwImprovementPercent)) then
        Some (''CTS-SW improvement cannot exceed ''
              @ toString H (max' (VALIDATION_RANGES CtsSwImprovementPercent))
              @ ''% (be realistic about achievable gains)'')
      else None)"

definition validateSolutionCost :: "Host \<Rightarrow> jsval \<Rightarrow> string option" where
  "validateSolutionCost H cost =
     (if cost = Null \<or> cost = Undefined \<or> isNaN cost then
        Some ''Solution cost is required and must be a number''
      else if js_le (ToNumber cost) (Fin 0) then
        Some ''Solution cost must be greater than zero''
      else if js_lt (ToNumber cost) (min' (VALIDATION_RANGES SolutionCost)) then
        Some (''Solution cost must be at least $''
              @ toLocaleString H (min' (VALIDATION_RANGES SolutionCost)))
      else if js_gt (ToNumber cost) (max' (VALIDATION_RANGES SolutionCost)) then
        Some (''Solution cost cannot exceed $''
              @ toLocaleString H (max' (VALIDATION_RANGES SolutionCost)))
      else None)"

definition validateRevenuePercentage :: "Host \<Rightarrow> jsval \<Rightarrow> string option" where
  "validateRevenuePercentage H percentage =
     (if percentage = Null \<or> percentage = Undefined \<or> isNaN percentage then
        Some ''Revenue percentage is required for tech companies''
      else if js_lt (ToNumber percentage) (min' (VALIDATION_RANGES RevenuePercentage)) then
        Some (''Revenue percentage must be at least ''
              @ toString H (min' (VALIDATION_RANGES RevenuePercentage)) @ ''%'')
      else if js_gt (ToNumber percentage) (max' (VALIDATION_RANGES RevenuePercentage)) then
        Some (''Revenue percentage cannot exceed ''
              @ toString H (max' (VALIDATION_RANGES RevenuePercentage)) @ ''%'')
      else None)"

definition validateCrossFieldConstraints :: "Host \<Rightarrow> Scenario \<Rightarrow> ValidationErrors" where
  "validateCrossFieldConstraints H scenario =
     (let errors = [];
          totalDeveloperCost =
            Number_multiply (developerCount scenario) (annualCostPerDeveloper scenario);
          costRatio = Number_divide (solutionCost scenario) totalDeveloperCost;
          errors =
            (if js_gt costRatio (Fin 0.5) then
               AList.update ''solutionCost''
                 (''Solution cost ($'' @ toLocaleString H (solutionCost scenario)
                  @ '') seems high relative to total developer cost ($''
                  @ toLocaleString H totalDeveloperCost
                  @ ''). Consider if this investment is realistic.'') errors
             else errors);
          errors =
            (if js_lt costRatio (Fin 0.005) \<and> js_gt (ctsSwImprovementPercent scenario) (Fin 15) then
               AList.update ''ctsSwImprovementPercent''
                 (toString H (ctsSwImprovementPercent scenario)
                  @ ''% improvement may be unrealistic for a relatively small investment ($''
                  @ toLocaleString H (solutionCost scenario) @ '')'') errors
             else errors);
          errors =
            (if js_lt (developerCount scenario) (Fin 10) \<and> js_gt (solutionCost scenario) (Fin 500000) then
               AList.update ''general''
                 (''High solution cost for a small team. Consider if this investment makes sense for ''
                  @ toString H (developerCount scenario) @ '' developers.'') errors
             else errors)
      in errors)"

definition validateScenario :: "Host \<Rightarrow> Scenario \<Rightarrow> ValidationErrors" where
  "validateScenario H scenario =
     (let errors = [];
          developerCountError = validateDeveloperCount H (Num (developerCount scenario));
          errors = assign_if_truthy ''developerCount'' developerCountError errors;
          costError = validateAnnualCostPerDeveloper H (Num (annualCostPerDeveloper scenario));
          errors = assign_if_truthy ''annualCostPerDeveloper'' costError errors;
          improvementError = validateCtsSwImprovement H (Num (ctsSwImprovementPercent scenario));
          errors = assign_if_truthy ''ctsSwImprovementPercent'' improvementError errors;
          solutionCostError = validateSolutionCost H (Num (solutionCost scenario));
          errors = assign_if_truthy ''solutionCost'' solutionCostError errors;
          errors =
            (if businessType scenario = tech then
               (let revenueError =
                      validateRevenuePercentage H (optional (revenuePercentage scenario))
                in assign_if_truthy ''revenuePercentage'' revenueError errors)
             else errors);
          crossFieldErrors = validateCrossFieldConstraints H scenario
      in Object_assign errors crossFieldErrors)"

section \<open>BusinessModelCalculator (services/BusinessModelCalculator.ts)\<close>

text \<open>\<^verbatim>\<open>throw new Error(message)\<close> is the left summand of the result.\<close>

datatype error = Error string

text \<open>The multiplication and division signs of the step texts, as UTF-8 bytes.\<close>

definition times_sign :: string where
  "times_sign = [CHR 0xC3, CHR 0x97]"

definition division_sign :: string where
  "division_sign = [CHR 0xC3, CHR 0xB7]"

definition validateInputs :: "Host \<Rightarrow> Scenario \<Rightarrow> ValidationErrors" where
  "validateInputs H scenario = validateScenario H scenario"

definition calculateTraditionalBusiness :: "Host \<Rightarrow> Scenario \<Rightarrow> error + CalculationResults" where
  "calculateTraditionalBusiness H scenario =
     (let validationErrors = validateInputs H scenario in
      if 0 < length (Object_keys validationErrors) then
        Inl (Error (''Validation failed: '' @ join '', '' (Object_values validationErrors)))
      else
        (let totalDeveloperCost =
               Number_multiply (developerCount scenario) (annualCostPerDeveloper scenario);
             costAvoidance =
               Number_multiply totalDeveloperCost
                 (Number_divide (ctsSwImprovementPercent scenario) (Fin 100));
             roiMultiple = Number_divide costAvoidance (solutionCost scenario);
             roiPercentage = Number_multiply (Number_subtract roiMultiple (Fin 1)) (Fin 100);
             calculationSteps =
               [\<lparr>step = Fin 1,
                 description = ''Calculate Total Developer Cost'',
                 formula = ''Developer Count '' @ times_sign @ '' Annual Cost per Developer'',
                 calculation =
                   toLocaleString H (developerCount scenario) @ '' '' @ times_sign @ '' $''
                   @ toLocaleString H (annualCostPerDeveloper scenario),
                 result = totalDeveloperCost,
                 explanation =
                   ''Total annual cost of all developers including salaries, benefits, and tooling''\<rparr>,
                \<lparr>step = Fin 2,
                 description = ''Calculate Cost Avoidance'',
                 formula = ''Total Developer Cost '' @ times_sign @ '' CTS-SW Improvement %'',
                 calculation =
                   ''$'' @ toLocaleString H totalDeveloperCost @ '' '' @ times_sign @ '' ''
                   @ toString H (ctsSwImprovementPercent scenario) @ ''%'',
                 result = costAvoidance,
                 explanation =
                   ''Annual cost savings from improved developer productivity using CTS-SW framework''\<rparr>,
                \<lparr>step = Fin 3,
                 description = ''Calculate ROI Multiple'',
                 formula = ''Cost Avoidance '' @ division_sign @ '' Solution Cost'',
                 calculation =
                   ''$'' @ toLocaleString H costAvoidance @ '' '' @ division_sign @ '' $''
                   @ toLocaleString H (solutionCost scenario),
                 result = roiMultiple,
                 explanation =
                   ''Return on investment multiple - how many times the investment is returned annually''\<rparr>]
         in Inr \<lparr>scenarioId = id' scenario,
                 totalDeveloperCost = totalDeveloperCost,
                 costAvoidance = costAvoidance,
                 roiMultiple = roiMultiple,
                 roiPercentage = roiPercentage,
                 grossMarginImprovement = None,
                 profitImpact = None,
                 profitBoostPercentage = None,
                 supportingMetrics =
                   \<lparr>deploymentsPerBuilder = Fin 0,
                    interventionsReduction = Fin 0,
                    incidentReduction = Fin 0\<rparr>,
                 calculationSteps = calculationSteps\<rparr>))"

definition calculateTechCompany :: "Host \<Rightarrow> Scenario \<Rightarrow> error + CalculationResults" where
  "calculateTechCompany H scenario =
     (let validationErrors = validateInputs H scenario in
      if 0 < length (Object_keys validationErrors) then
        Inl (Error (''Validation failed: '' @ join '', '' (Object_values validationErrors)))
      else if \<not> ToBoolean (optional (revenuePercentage scenario)) then
        Inl (Error ''Revenue percentage is required for tech company calculations'')
      else
        (case calculateTraditionalBusiness H scenario of
           Inl e \<Rightarrow> Inl e
         | Inr basicResults \<Rightarrow>
            (let revenue = ToNumber (optional (revenuePercentage scenario));
                 totalDeveloperCost =
                   Number_multiply (developerCount scenario) (annualCostPerDeveloper scenario);
                 costAvoidance =
                   Number_multiply totalDeveloperCost
                     (Number_divide (ctsSwImprovementPercent scenario) (Fin 100));
                 grossMarginImprovement =
                   Number_multiply costAvoidance (Number_divide revenue (Fin 100));
                 profitImpact = grossMarginImprovement;
                 baselineProfitMargin = Fin 0.10;
                 estimatedCurrentProfit = Number_multiply totalDeveloperCost baselineProfitMargin;
                 profitBoostPercentage =
                   (if js_gt estimatedCurrentProfit (Fin 0) then
                      Number_multiply (Number_divide profitImpact estimatedCurrentProfit) (Fin 100)
                    else Fin 0);
                 techCalculationSteps =
                   calculationSteps basicResults @
                   [\<lparr>step = Fin 4,
                     description = ''Calculate Gross Margin Improvement (Tech Company)'',
                     formula =
                       ''Cost Avoidance '' @ times_sign @ '' Revenue from Software Development %'',
                     calculation =
                       toLocaleString H costAvoidance @ '' '' @ times_sign @ '' ''
                       @ toString H revenue @ ''%'',
                     result = grossMarginImprovement,
                     explanation =
                       ''For tech companies, developer productivity improvements directly impact gross margins on software revenue''\<rparr>,
                    \<lparr>step = Fin 5,
                     description = ''Calculate Profit Impact'',
                     formula = ''Gross Margin Improvement (flows to profit)'',
                     calculation = toLocaleString H grossMarginImprovement,
                     result = profitImpact,
                     explanation =
                       ''Gross margin improvements from developer productivity typically flow directly to profit''\<rparr>,
                    \<lparr>step = Fin 6,
                     description = ''Calculate Profit Boost Percentage'',
                     formula =
                       ''Profit Impact '' @ division_sign @ '' Estimated Current Profit ''
                       @ times_sign @ '' 100'',
                     calculation =
                       toLocaleString H profitImpact @ '' '' @ division_sign @ '' ''
                       @ toLocaleString H estimatedCurrentProfit @ '' '' @ times_sign @ '' 100'',
                     result = profitBoostPercentage,
                     explanation =
                       ''Percentage increase in profit relative to baseline (assuming 10% current profit margin)''\<rparr>]
             in Inr (basicResults
                      \<lparr>grossMarginImprovement := Some grossMarginImprovement,
                       profitImpact := Some profitImpact,
                       profitBoostPercentage := Some profitBoostPercentage,
                       calculationSteps := techCalculationSteps\<rparr>))))"

section \<open>Concrete inputs for the closed examples\<close>

text \<open>
  A host that renders every number as the same text, to instantiate the host parameter
  in closed examples. The general theorems below hold for every host, and no example
  depends on how a number is rendered.
\<close>

definition fixed_host :: Host where
  "fixed_host = \<lparr>toLocaleString = (\<lambda>n. ''#''), toString = (\<lambda>n. ''#'')\<rparr>"

definition scenario_of ::
  "BusinessType \<Rightarrow> jsnum \<Rightarrow> jsnum \<Rightarrow> jsnum \<Rightarrow> jsnum \<Rightarrow> jsnum option \<Rightarrow> Scenario" where
  "scenario_of bt dc acpd cts sc revenue =
     \<lparr>id' = ''test-scenario'', name = ''Test Scenario'', businessType = bt,
      developerCount = dc, annualCostPerDeveloper = acpd, ctsSwImprovementPercent = cts,
      solutionCost = sc, revenuePercentage = revenue, organizationSize = None, notes' = None,
      createdAt = 0, updatedAt = 0\<rparr>"

section \<open>Auxiliary facts\<close>

lemma update_not_Nil: "AList.update k v xs \<noteq> []"
  by (cases xs) auto

lemma Object_assign_Nil_iff: "Object_assign t s = [] \<longleftrightarrow> t = [] \<and> s = []"
proof -
  have "\<And>t. fold (\<lambda>(k, v) obj. AList.update k v obj) s t = [] \<longleftrightarrow> t = [] \<and> s = []"
  proof (induction s)
    case Nil
    show ?case by simp
  next
    case (Cons p ps)
    show ?case by (cases p) (simp add: Cons.IH update_not_Nil)
  qed
  then show ?thesis by (simp add: Object_assign_def)
qed

lemma assign_if_truthy_Nil_iff:
  "assign_if_truthy k m errs = [] \<longleftrightarrow> errs = [] \<and> (m = None \<or> m = Some [])"
  by (auto simp: assign_if_truthy_def update_not_Nil split: option.splits)

lemma validateDeveloperCount_None_iff:
  "validateDeveloperCount H (Num n) = None \<longleftrightarrow>
     (\<exists>d. n = Fin d \<and> d = of_int \<lfloor>d\<rfloor> \<and> 1 \<le> d \<and> d \<le> 50000)"
  by (cases n) (auto simp: validateDeveloperCount_def isNaN_def js_gt_def)

lemma validateAnnualCostPerDeveloper_None_iff:
  "validateAnnualCostPerDeveloper H (Num n) = None \<longleftrightarrow>
     (\<exists>c. n = Fin c \<and> 50000 \<le> c \<and> c \<le> 300000)"
  by (cases n) (auto simp: validateAnnualCostPerDeveloper_def isNaN_def js_gt_def js_le_def)

lemma validateCtsSwImprovement_None_iff:
  "validateCtsSwImprovement H (Num n) = None \<longleftrightarrow>
     (\<exists>c. n = Fin c \<and> 0.1 \<le> c \<and> c \<le> 50)"
  by (cases n) (auto simp: validateCtsSwImprovement_def isNaN_def js_gt_def js_le_def)

lemma validateSolutionCost_None_iff:
  "validateSolutionCost H (Num n) = None \<longleftrightarrow>
     (\<exists>c. n = Fin c \<and> 1000 \<le> c \<and> c \<le> 100000000)"
  by (cases n) (auto simp: validateSolutionCost_def isNaN_def js_gt_def js_le_def)

lemma validateRevenuePercentage_None_iff:
  "validateRevenuePercentage H v = None \<longleftrightarrow>
     (v = Num NZero \<or> (\<exists>p. v = Num (Fin p) \<and> 0 \<le> p \<and> p \<le> 100))"
proof (cases v)
  case (Num n)
  then show ?thesis
    by (cases n) (auto simp: validateRevenuePercentage_def isNaN_def js_gt_def)
qed (simp_all add: validateRevenuePercentage_def)

lemma validateDeveloperCount_truthy: "validateDeveloperCount H v \<noteq> Some []"
  by (simp add: validateDeveloperCount_def)

lemma validateAnnualCostPerDeveloper_truthy: "validateAnnualCostPerDeveloper H v \<noteq> Some []"
  by (simp add: validateAnnualCostPerDeveloper_def)

lemma validateCtsSwImprovement_truthy: "validateCtsSwImprovement H v \<noteq> Some []"
  by (simp add: validateCtsSwImprovement_def)

lemma validateSolutionCost_truthy: "validateSolutionCost H v \<noteq> Some []"
  by (simp add: validateSolutionCost_def)

lemma validateRevenuePercentage_truthy: "validateRevenuePercentage H v \<noteq> Some []"
  by (simp add: validateRevenuePercentage_def)

lemma validateScenario_Nil_iff:
  "validateScenario H s = [] \<longleftrightarrow>
     validateDeveloperCount H (Num (developerCount s)) = None \<and>
     validateAnnualCostPerDeveloper H (Num (annualCostPerDeveloper s)) = None \<and>
     validateCtsSwImprovement H (Num (ctsSwImprovementPercent s)) = None \<and>
     validateSolutionCost H (Num (solutionCost s)) = None \<and>
     (businessType s = tech \<longrightarrow>
        validateRevenuePercentage H (optional (revenuePercentage s)) = None) \<and>
     validateCrossFieldConstraints H s = []"
  by (auto simp: validateScenario_def Let_def Object_assign_Nil_iff assign_if_truthy_Nil_iff
      validateDeveloperCount_truthy validateAnnualCostPerDeveloper_truthy
      validateCtsSwImprovement_truthy validateSolutionCost_truthy
      validateRevenuePercentage_truthy)

lemma scenario_of_sel [simp]:
  "id' (scenario_of bt dc acpd cts sc revenue) = ''test-scenario''"
  "businessType (scenario_of bt dc acpd cts sc revenue) = bt"
  "developerCount (scenario_of bt dc acpd cts sc revenue) = dc"
  "annualCostPerDeveloper (scenario_of bt dc acpd cts sc revenue) = acpd"
  "ctsSwImprovementPercent (scenario_of bt dc acpd cts sc revenue) = cts"
  "solutionCost (scenario_of bt dc acpd cts sc revenue) = sc"
  "revenuePercentage (scenario_of bt dc acpd cts sc revenue) = revenue"
  by (simp_all add: scenario_of_def)

lemmas validator_defs =
  validateDeveloperCount_def validateAnnualCostPerDeveloper_def validateCtsSwImprovement_def
  validateSolutionCost_def validateRevenuePercentage_def isNaN_def js_gt_def js_le_def

lemmas number_defs =
  Number_multiply_def Number_divide_def Number_subtract_def finite_result_def
  signed_zero_def signed_infinity_def is_zero_def is_infinity_def

lemma cross_Nil_iff:
  "validateCrossFieldConstraints H s = [] \<longleftrightarrow>
     \<not> js_gt (Number_divide (solutionCost s)
               (Number_multiply (developerCount s) (annualCostPerDeveloper s))) (Fin 0.5) \<and>
     \<not> (js_lt (Number_divide (solutionCost s)
               (Number_multiply (developerCount s) (annualCostPerDeveloper s))) (Fin 0.005)
        \<and> js_gt (ctsSwImprovementPercent s) (Fin 15)) \<and>
     \<not> (js_lt (developerCount s) (Fin 10) \<and> js_gt (solutionCost s) (Fin 500000))"
  by (simp add: validateCrossFieldConstraints_def Let_def update_not_Nil)

lemma valid_scenario_fields:
  assumes "validateScenario H s = []"
  shows "\<exists>d a c k. developerCount s = Fin d \<and> 1 \<le> d \<and> d \<le> 50000 \<and> d = of_int \<lfloor>d\<rfloor>
           \<and> annualCostPerDeveloper s = Fin a \<and> 50000 \<le> a \<and> a \<le> 300000
           \<and> ctsSwImprovementPercent s = Fin c \<and> 0.1 \<le> c \<and> c \<le> 50
           \<and> solutionCost s = Fin k \<and> 1000 \<le> k \<and> k \<le> 100000000"
proof -
  from assms obtain d where d: "developerCount s = Fin d" "d = of_int \<lfloor>d\<rfloor>" "1 \<le> d" "d \<le> 50000"
    unfolding validateScenario_Nil_iff validateDeveloperCount_None_iff by blast
  from assms obtain a where a: "annualCostPerDeveloper s = Fin a" "50000 \<le> a" "a \<le> 300000"
    unfolding validateScenario_Nil_iff validateAnnualCostPerDeveloper_None_iff by blast
  from assms obtain c where c: "ctsSwImprovementPercent s = Fin c" "0.1 \<le> c" "c \<le> 50"
    unfolding validateScenario_Nil_iff validateCtsSwImprovement_None_iff by blast
  from assms obtain k where k: "solutionCost s = Fin k" "1000 \<le> k" "k \<le> 100000000"
    unfolding validateScenario_Nil_iff validateSolutionCost_None_iff by blast
  from d a c k show ?thesis by blast
qed

lemma calculateTraditionalBusiness_invalid:
  "validateScenario H s \<noteq> [] \<Longrightarrow>
   calculateTraditionalBusiness H s =
     Inl (Error (''Validation failed: '' @ join '', '' (Object_values (validateScenario H s))))"
  by (simp add: calculateTraditionalBusiness_def validateInputs_def Object_keys_def)

lemma traditional_valid_Inr:
  "validateScenario H s = [] \<Longrightarrow> \<exists>r. calculateTraditionalBusiness H s = Inr r"
  by (simp add: calculateTraditionalBusiness_def validateInputs_def Object_keys_def Let_def)

lemma traditional_valid_projr:
  assumes "validateScenario H s = []"
  shows "scenarioId (projr (calculateTraditionalBusiness H s)) = id' s"
    and "totalDeveloperCost (projr (calculateTraditionalBusiness H s)) =
           Number_multiply (developerCount s) (annualCostPerDeveloper s)"
    and "costAvoidance (projr (calculateTraditionalBusiness H s)) =
           Number_multiply (Number_multiply (developerCount s) (annualCostPerDeveloper s))
             (Number_divide (ctsSwImprovementPercent s) (Fin 100))"
    and "roiMultiple (projr (calculateTraditionalBusiness H s)) =
           Number_divide
             (Number_multiply (Number_multiply (developerCount s) (annualCostPerDeveloper s))
               (Number_divide (ctsSwImprovementPercent s) (Fin 100)))
             (solutionCost s)"
    and "roiPercentage (projr (calculateTraditionalBusiness H s)) =
           Number_multiply
             (Number_subtract
               (Number_divide
                 (Number_multiply (Number_multiply (developerCount s) (annualCostPerDeveloper s))
                   (Number_divide (ctsSwImprovementPercent s) (Fin 100)))
                 (solutionCost s))
               (Fin 1))
             (Fin 100)"
    and "grossMarginImprovement (projr (calculateTraditionalBusiness H s)) = None"
    and "profitImpact (projr (calculateTraditionalBusiness H s)) = None"
    and "profitBoostPercentage (projr (calculateTraditionalBusiness H s)) = None"
    and "map step (calculationSteps (projr (calculateTraditionalBusiness H s))) =
           [Fin 1, Fin 2, Fin 3]"
    and "map result (calculationSteps (projr (calculateTraditionalBusiness H s))) =
           [Number_multiply (developerCount s) (annualCostPerDeveloper s),
            Number_multiply (Number_multiply (developerCount s) (annualCostPerDeveloper s))
              (Number_divide (ctsSwImprovementPercent s) (Fin 100)),
            Number_divide
              (Number_multiply (Number_multiply (developerCount s) (annualCostPerDeveloper s))
                (Number_divide (ctsSwImprovementPercent s) (Fin 100)))
              (solutionCost s)]"
  using assms
  by (simp_all add: calculateTraditionalBusiness_def validateInputs_def Object_keys_def Let_def)

lemma Number_multiply_pos:
  "0 < y \<Longrightarrow> Number_multiply (Fin x) (Fin y) = Fin (x * y)"
  by (auto simp: number_defs)

lemma Number_divide_pos:
  "0 < y \<Longrightarrow> Number_divide (Fin x) (Fin y) = Fin (x / y)"
  by (auto simp: number_defs)

lemma Number_subtract_Fin:
  "Number_subtract (Fin x) (Fin y) = Fin (x - y)"
  by (auto simp: number_defs)

lemma calculateTechCompany_invalid:
  "validateScenario H s \<noteq> [] \<Longrightarrow>
   calculateTechCompany H s =
     Inl (Error (''Validation failed: '' @ join '', '' (Object_values (validateScenario H s))))"
  by (simp add: calculateTechCompany_def validateInputs_def Object_keys_def)

lemma calculateTechCompany_falsy:
  "validateScenario H s = [] \<Longrightarrow> \<not> ToBoolean (optional (revenuePercentage s)) \<Longrightarrow>
   calculateTechCompany H s =
     Inl (Error ''Revenue percentage is required for tech company calculations'')"
  by (simp add: calculateTechCompany_def validateInputs_def Object_keys_def)

lemma tech_valid_Inr:
  assumes "validateScenario H s = []" and "ToBoolean (optional (revenuePercentage s))"
  shows "\<exists>r. calculateTechCompany H s = Inr r"
proof -
  from traditional_valid_Inr [OF assms(1)] obtain r0 where
    r0: "calculateTraditionalBusiness H s = Inr r0" ..
  show ?thesis
    using assms
    by (simp add: calculateTechCompany_def validateInputs_def Object_keys_def Let_def r0)
qed

lemma tech_valid_projr:
  assumes "validateScenario H s = []" and "ToBoolean (optional (revenuePercentage s))"
    and "calculateTraditionalBusiness H s = Inr r0"
  shows "scenarioId (projr (calculateTechCompany H s)) = scenarioId r0"
    and "totalDeveloperCost (projr (calculateTechCompany H s)) = totalDeveloperCost r0"
    and "costAvoidance (projr (calculateTechCompany H s)) = costAvoidance r0"
    and "roiMultiple (projr (calculateTechCompany H s)) = roiMultiple r0"
    and "roiPercentage (projr (calculateTechCompany H s)) = roiPercentage r0"
    and "supportingMetrics (projr (calculateTechCompany H s)) = supportingMetrics r0"
    and "grossMarginImprovement (projr (calculateTechCompany H s)) =
           Some (Number_multiply
             (Number_multiply (Number_multiply (developerCount s) (annualCostPerDeveloper s))
               (Number_divide (ctsSwImprovementPercent s) (Fin 100)))
             (Number_divide (ToNumber (optional (revenuePercentage s))) (Fin 100)))"
    and "profitImpact (projr (calculateTechCompany H s)) =
           grossMarginImprovement (projr (calculateTechCompany H s))"
    and "profitBoostPercentage (projr (calculateTechCompany H s)) =
           Some (if js_gt (Number_multiply
                    (Number_multiply (developerCount s) (annualCostPerDeveloper s)) (Fin 0.10))
                   (Fin 0)
                 then Number_multiply
                   (Number_divide
                     (Number_multiply
                       (Number_multiply (Number_multiply (developerCount s) (annualCostPerDeveloper s))
                         (Number_divide (ctsSwImprovementPercent s) (Fin 100)))
                       (Number_divide (ToNumber (optional (revenuePercentage s))) (Fin 100)))
                     (Number_multiply
                       (Number_multiply (developerCount s) (annualCostPerDeveloper s)) (Fin 0.10)))
                   (Fin 100)
                 else Fin 0)"
    and "map step (calculationSteps (projr (calculateTechCompany H s))) =
           map step (calculationSteps r0) @ [Fin 4, Fin 5, Fin 6]"
    and "take (length (calculationSteps r0)) (calculationSteps (projr (calculateTechCompany H s)))
           = calculationSteps r0"
    and "map result (drop (length (calculationSteps r0))
             (calculationSteps (projr (calculateTechCompany H s)))) =
           [the (grossMarginImprovement (projr (calculateTechCompany H s))),
            the (profitImpact (projr (calculateTechCompany H s))),
            the (profitBoostPercentage (projr (calculateTechCompany H s)))]"
  using assms
  by (simp_all add: calculateTechCompany_def validateInputs_def Object_keys_def Let_def)

lemma traditional_Inr_valid:
  "calculateTraditionalBusiness H s = Inr r \<Longrightarrow> validateScenario H s = []"
  using calculateTraditionalBusiness_invalid [of H s] by auto

lemma tech_Inr_valid:
  assumes "calculateTechCompany H s = Inr r"
  shows "validateScenario H s = []" and "ToBoolean (optional (revenuePercentage s))"
proof -
  show v: "validateScenario H s = []"
    using calculateTechCompany_invalid [of H s] assms by auto
  show "ToBoolean (optional (revenuePercentage s))"
    using calculateTechCompany_falsy [OF v] assms by auto
qed

lemma tech_cases:
  "calculateTechCompany H s =
     Inl (Error (''Validation failed: '' @ join '', '' (Object_values (validateScenario H s))))
   \<and> validateScenario H s \<noteq> []
   \<or> calculateTechCompany H s =
       Inl (Error ''Revenue percentage is required for tech company calculations'')
     \<and> validateScenario H s = [] \<and> \<not> ToBoolean (optional (revenuePercentage s))
   \<or> (\<exists>r. calculateTechCompany H s = Inr r)
     \<and> validateScenario H s = [] \<and> ToBoolean (optional (revenuePercentage s))"
  using calculateTechCompany_invalid [of H s] calculateTechCompany_falsy [of H s]
    tech_valid_Inr [of H s]
  by blast

lemma invalid_example:
  "validateScenario fixed_host (scenario_of traditional NaN NaN (Fin 15) (Fin 2000000) None) =
     [(''developerCount'', ''Developer count is required and must be a number''),
      (''annualCostPerDeveloper'', ''Annual cost per developer is required and must be a number'')]"
  by (simp add: validateScenario_def validateCrossFieldConstraints_def Let_def
      assign_if_truthy_def Object_assign_def validator_defs number_defs)

lemma bank_example_valid:
  "validateScenario fixed_host
     (scenario_of traditional (Fin 1000) (Fin 130000) (Fin 15) (Fin 2000000) None) = []"
  by (simp add: validateScenario_Nil_iff cross_Nil_iff validator_defs number_defs)

lemma tech_zero_revenue_valid:
  "validateScenario fixed_host
     (scenario_of tech (Fin 400) (Fin 150000) (Fin 15) (Fin 1000000) (Some (Fin 0))) = []"
  by (simp add: validateScenario_Nil_iff cross_Nil_iff validator_defs number_defs)


lemma map_of_Object_assign:
  "distinct (map fst s) \<Longrightarrow> map_of (Object_assign t s) = map_of t ++ map_of s"
proof -
  have "\<And>t. distinct (map fst s) \<Longrightarrow>
      map_of (fold (\<lambda>(k, v) obj. AList.update k v obj) s t) = map_of t ++ map_of s"
  proof (induction s)
    case Nil
    show ?case by simp
  next
    case (Cons p ps)
    obtain k v where p: "p = (k, v)" by (cases p)
    from Cons.prems have d: "distinct (map fst ps)" and n: "map_of ps k = None"
      by (simp_all add: p map_of_eq_None_iff)
    show ?case
      using n by (intro ext) (simp add: p Cons.IH [OF d] update_conv' map_add_def split: option.splits)
  qed
  then show "distinct (map fst s) \<Longrightarrow> map_of (Object_assign t s) = map_of t ++ map_of s"
    by (simp add: Object_assign_def)
qed

lemma distinct_cross_keys: "distinct (map fst (validateCrossFieldConstraints H s))"
  by (simp add: validateCrossFieldConstraints_def Let_def distinct_update)

lemma map_of_assign_if_truthy:
  "map_of (assign_if_truthy k m e) k' =
     (if k' = k \<and> m \<noteq> None \<and> m \<noteq> Some [] then m else map_of e k')"
  by (auto simp: assign_if_truthy_def update_conv' split: option.splits)

lemma map_of_cross:
  "map_of (validateCrossFieldConstraints H s) k =
    (let totalDeveloperCost = Number_multiply (developerCount s) (annualCostPerDeveloper s);
         costRatio = Number_divide (solutionCost s) totalDeveloperCost in
     if k = ''general'' \<and> js_lt (developerCount s) (Fin 10) \<and> js_gt (solutionCost s) (Fin 500000) then
       Some (''High solution cost for a small team. Consider if this investment makes sense for ''
             @ toString H (developerCount s) @ '' developers.'')
     else if k = ''ctsSwImprovementPercent'' \<and> js_lt costRatio (Fin 0.005)
          \<and> js_gt (ctsSwImprovementPercent s) (Fin 15) then
       Some (toString H (ctsSwImprovementPercent s)
             @ ''% improvement may be unrealistic for a relatively small investment ($''
             @ toLocaleString H (solutionCost s) @ '')'')
     else if k = ''solutionCost'' \<and> js_gt costRatio (Fin 0.5) then
       Some (''Solution cost ($'' @ toLocaleString H (solutionCost s)
             @ '') seems high relative to total developer cost ($''
             @ toLocaleString H totalDeveloperCost
             @ ''). Consider if this investment is realistic.'')
     else None)"
  by (simp add: validateCrossFieldConstraints_def Let_def update_conv')

lemma lookup_solutionCost:
  "map_of (validateScenario H s) ''solutionCost'' =
     (case map_of (validateCrossFieldConstraints H s) ''solutionCost'' of
        Some m \<Rightarrow> Some m
      | None \<Rightarrow> validateSolutionCost H (Num (solutionCost s)))"
  unfolding validateScenario_def Let_def map_of_Object_assign [OF distinct_cross_keys] map_add_def
  by (simp add: map_of_assign_if_truthy validateDeveloperCount_truthy
      validateAnnualCostPerDeveloper_truthy validateCtsSwImprovement_truthy
      validateSolutionCost_truthy validateRevenuePercentage_truthy cong: option.case_cong)

lemma lookup_ctsSwImprovementPercent:
  "map_of (validateScenario H s) ''ctsSwImprovementPercent'' =
     (case map_of (validateCrossFieldConstraints H s) ''ctsSwImprovementPercent'' of
        Some m \<Rightarrow> Some m
      | None \<Rightarrow> validateCtsSwImprovement H (Num (ctsSwImprovementPercent s)))"
  unfolding validateScenario_def Let_def map_of_Object_assign [OF distinct_cross_keys] map_add_def
  by (simp add: map_of_assign_if_truthy validateDeveloperCount_truthy
      validateAnnualCostPerDeveloper_truthy validateCtsSwImprovement_truthy
      validateSolutionCost_truthy validateRevenuePercentage_truthy cong: option.case_cong)

lemma lookup_general:
  "map_of (validateScenario H s) ''general'' =
     map_of (validateCrossFieldConstraints H s) ''general''"
  unfolding validateScenario_def Let_def map_of_Object_assign [OF distinct_cross_keys] map_add_def
  by (simp add: map_of_assign_if_truthy split: option.splits)

lemma lookup_revenuePercentage:
  "map_of (validateScenario H s) ''revenuePercentage'' =
     (if businessType s = tech then validateRevenuePercentage H (optional (revenuePercentage s))
      else None)"
  unfolding validateScenario_def Let_def map_of_Object_assign [OF distinct_cross_keys] map_add_def
  by (simp add: map_of_assign_if_truthy map_of_cross validateRevenuePercentage_truthy)

lemma cross_flags:
  "map_of (validateCrossFieldConstraints H s) ''solutionCost'' \<noteq> None \<longleftrightarrow>
     js_gt (Number_divide (solutionCost s)
              (Number_multiply (developerCount s) (annualCostPerDeveloper s))) (Fin 0.5)"
  "map_of (validateCrossFieldConstraints H s) ''ctsSwImprovementPercent'' \<noteq> None \<longleftrightarrow>
     js_lt (Number_divide (solutionCost s)
              (Number_multiply (developerCount s) (annualCostPerDeveloper s))) (Fin 0.005)
     \<and> js_gt (ctsSwImprovementPercent s) (Fin 15)"
  "map_of (validateCrossFieldConstraints H s) ''general'' \<noteq> None \<longleftrightarrow>
     js_lt (developerCount s) (Fin 10) \<and> js_gt (solutionCost s) (Fin 500000)"
  by (simp_all add: map_of_cross Let_def)

section \<open>The traditional pipeline\<close>

text \<open>
  Claim C1. For every scenario with \<open>businessType = traditional\<close> on which
  \<open>validateScenario\<close> reports no error, \<open>calculateTraditionalBusiness\<close> returns a
  result with \<open>totalDeveloperCost = developerCount * annualCostPerDeveloper\<close>,
  \<open>costAvoidance = totalDeveloperCost * (ctsSwImprovementPercent / 100)\<close>,
  \<open>roiMultiple = costAvoidance / solutionCost\<close> and
  \<open>roiPercentage = (roiMultiple - 1) * 100\<close>, and exactly three steps numbered 1, 2, 3
  whose results are \<open>totalDeveloperCost\<close>, \<open>costAvoidance\<close> and \<open>roiMultiple\<close>; there is
  no step for \<open>roiPercentage\<close>. The operations are those of the program
  (\<open>Number_multiply\<close>, \<open>Number_divide\<close>, \<open>Number_subtract\<close>), applied in the order of
  the source; the statement and its proof use no property of them.
\<close>

theorem C1_traditional_formulas:
  assumes "businessType s = traditional" and "validateScenario H s = []"
  shows "\<exists>r. calculateTraditionalBusiness H s = Inr r
     \<and> totalDeveloperCost r = Number_multiply (developerCount s) (annualCostPerDeveloper s)
     \<and> costAvoidance r =
         Number_multiply (totalDeveloperCost r) (Number_divide (ctsSwImprovementPercent s) (Fin 100))
     \<and> roiMultiple r = Number_divide (costAvoidance r) (solutionCost s)
     \<and> roiPercentage r = Number_multiply (Number_subtract (roiMultiple r) (Fin 1)) (Fin 100)
     \<and> length (calculationSteps r) = 3
     \<and> map step (calculationSteps r) = [Fin 1, Fin 2, Fin 3]
     \<and> map result (calculationSteps r) = [totalDeveloperCost r, costAvoidance r, roiMultiple r]"
proof -
  from traditional_valid_Inr [OF assms(2)] obtain r where
    r: "calculateTraditionalBusiness H s = Inr r" ..
  then have p: "projr (calculateTraditionalBusiness H s) = r" by simp
  note q = traditional_valid_projr [OF assms(2), unfolded p]
  have len: "length (calculationSteps r) = 3"
    using arg_cong [OF q(9), of length] by simp
  have t': "totalDeveloperCost r = Number_multiply (developerCount s) (annualCostPerDeveloper s)"
    by (rule q(2))
  have ca': "costAvoidance r =
         Number_multiply (totalDeveloperCost r) (Number_divide (ctsSwImprovementPercent s) (Fin 100))"
    unfolding q(2) by (rule q(3))
  have rm': "roiMultiple r = Number_divide (costAvoidance r) (solutionCost s)"
    unfolding q(3) by (rule q(4))
  have rp': "roiPercentage r = Number_multiply (Number_subtract (roiMultiple r) (Fin 1)) (Fin 100)"
    unfolding q(4) by (rule q(5))
  have res: "map result (calculationSteps r) = [totalDeveloperCost r, costAvoidance r, roiMultiple r]"
    unfolding q(2) q(3) q(4) by (rule q(10))
  show ?thesis
    apply (rule exI [of _ r])
    apply (intro conjI r t' ca' rm' rp' len q(9) res)
    done
qed

theorem C1_traditional_formulas_witness:
  "businessType (scenario_of traditional (Fin 1000) (Fin 130000) (Fin 15) (Fin 2000000) None) = traditional
   \<and> validateScenario fixed_host
       (scenario_of traditional (Fin 1000) (Fin 130000) (Fin 15) (Fin 2000000) None) = []
   \<and> (\<exists>r. calculateTraditionalBusiness fixed_host
            (scenario_of traditional (Fin 1000) (Fin 130000) (Fin 15) (Fin 2000000) None) = Inr r
        \<and> totalDeveloperCost r = Fin 130000000
        \<and> costAvoidance r = Fin 19500000
        \<and> roiMultiple r = Fin 9.75
        \<and> roiPercentage r = Fin 875
        \<and> map step (calculationSteps r) = [Fin 1, Fin 2, Fin 3]
        \<and> map result (calculationSteps r) = [Fin 130000000, Fin 19500000, Fin 9.75])"
proof -
  let ?s = "scenario_of traditional (Fin 1000) (Fin 130000) (Fin 15) (Fin 2000000) None"
  have b: "businessType ?s = traditional" by simp
  have v: "validateScenario fixed_host ?s = []"
    by (simp add: validateScenario_Nil_iff cross_Nil_iff validator_defs number_defs)
  from C1_traditional_formulas [OF b v] obtain r where
    R: "calculateTraditionalBusiness fixed_host ?s = Inr r
     \<and> totalDeveloperCost r = Number_multiply (developerCount ?s) (annualCostPerDeveloper ?s)
     \<and> costAvoidance r =
         Number_multiply (totalDeveloperCost r) (Number_divide (ctsSwImprovementPercent ?s) (Fin 100))
     \<and> roiMultiple r = Number_divide (costAvoidance r) (solutionCost ?s)
     \<and> roiPercentage r = Number_multiply (Number_subtract (roiMultiple r) (Fin 1)) (Fin 100)
     \<and> length (calculationSteps r) = 3
     \<and> map step (calculationSteps r) = [Fin 1, Fin 2, Fin 3]
     \<and> map result (calculationSteps r) = [totalDeveloperCost r, costAvoidance r, roiMultiple r]" ..
  note r1 = R [THEN conjunct1]
  note r2 = R [THEN conjunct2, THEN conjunct1]
  note r3 = R [THEN conjunct2, THEN conjunct2, THEN conjunct1]
  note r4 = R [THEN conjunct2, THEN conjunct2, THEN conjunct2, THEN conjunct1]
  note r5 = R [THEN conjunct2, THEN conjunct2, THEN conjunct2, THEN conjunct2, THEN conjunct1]
  note r7 = R [THEN conjunct2, THEN conjunct2, THEN conjunct2, THEN conjunct2, THEN conjunct2,
      THEN conjunct2, THEN conjunct1]
  note r8 = R [THEN conjunct2, THEN conjunct2, THEN conjunct2, THEN conjunct2, THEN conjunct2,
      THEN conjunct2, THEN conjunct2]
  have t: "totalDeveloperCost r = Fin 130000000"
    unfolding r2 by (simp add: Number_multiply_pos)
  have ca: "costAvoidance r = Fin 19500000"
    unfolding r3 t by (simp add: Number_multiply_pos Number_divide_pos)
  have rm: "roiMultiple r = Fin 9.75"
    unfolding r4 ca by (simp add: Number_divide_pos)
  have rp: "roiPercentage r = Fin 875"
    unfolding r5 rm by (simp add: Number_multiply_pos Number_subtract_Fin)
  have res: "map result (calculationSteps r) = [Fin 130000000, Fin 19500000, Fin 9.75]"
    unfolding r8 t ca rm by (rule refl)
  show ?thesis
    apply (intro conjI b v)
    apply (rule exI [of _ r])
    apply (intro conjI r1 t ca rm rp r7 res)
    done
qed

section \<open>The tech-company pipeline\<close>

text \<open>
  For a scenario that passes validation and whose revenue percentage is truthy (present,
  a number, and not zero), \<open>calculateTechCompany\<close> returns the traditional result extended
  with the three tech fields, and six steps: the three traditional steps followed by
  steps 4 to 6.
\<close>

lemma calculateTechCompany_formulas:
  assumes "validateScenario H s = []" and "ToBoolean (optional (revenuePercentage s))"
  shows "\<exists>r0 r g b. calculateTraditionalBusiness H s = Inr r0 \<and> calculateTechCompany H s = Inr r
     \<and> scenarioId r = scenarioId r0
     \<and> totalDeveloperCost r = totalDeveloperCost r0
     \<and> costAvoidance r = costAvoidance r0
     \<and> roiMultiple r = roiMultiple r0
     \<and> roiPercentage r = roiPercentage r0
     \<and> supportingMetrics r = supportingMetrics r0
     \<and> grossMarginImprovement r = Some g
     \<and> g = Number_multiply (costAvoidance r)
             (Number_divide (ToNumber (optional (revenuePercentage s))) (Fin 100))
     \<and> profitImpact r = Some g
     \<and> profitBoostPercentage r = Some b
     \<and> b = (if js_gt (Number_multiply (totalDeveloperCost r) (Fin 0.10)) (Fin 0)
            then Number_multiply
                   (Number_divide g (Number_multiply (totalDeveloperCost r) (Fin 0.10))) (Fin 100)
            else Fin 0)
     \<and> map step (calculationSteps r) = [Fin 1, Fin 2, Fin 3, Fin 4, Fin 5, Fin 6]
     \<and> take 3 (calculationSteps r) = calculationSteps r0
     \<and> map result (drop 3 (calculationSteps r)) = [g, g, b]"
proof -
  from traditional_valid_Inr [OF assms(1)] obtain r0 where
    r0: "calculateTraditionalBusiness H s = Inr r0" ..
  then have p0: "projr (calculateTraditionalBusiness H s) = r0" by simp
  from tech_valid_Inr [OF assms] obtain r where r: "calculateTechCompany H s = Inr r" ..
  then have p: "projr (calculateTechCompany H s) = r" by simp
  note q0 = traditional_valid_projr [OF assms(1), unfolded p0]
  note q = tech_valid_projr [OF assms r0, unfolded p]
  have len0: "length (calculationSteps r0) = 3"
    using arg_cong [OF q0(9), of length] by simp
  define g where "g = Number_multiply (costAvoidance r)
             (Number_divide (ToNumber (optional (revenuePercentage s))) (Fin 100))"
  define b where "b = (if js_gt (Number_multiply (totalDeveloperCost r) (Fin 0.10)) (Fin 0)
            then Number_multiply
                   (Number_divide g (Number_multiply (totalDeveloperCost r) (Fin 0.10))) (Fin 100)
            else Fin 0)"
  have gm: "grossMarginImprovement r = Some g"
    unfolding g_def q(3) q0(3) by (rule q(7))
  have pi: "profitImpact r = Some g"
    unfolding q(8) by (rule gm)
  have pb: "profitBoostPercentage r = Some b"
    unfolding b_def g_def q(2) q(3) q0(2) q0(3) by (rule q(9))
  have st: "map step (calculationSteps r) = [Fin 1, Fin 2, Fin 3, Fin 4, Fin 5, Fin 6]"
    unfolding q(10) q0(9) by simp
  have tk: "take 3 (calculationSteps r) = calculationSteps r0"
    using q(11) unfolding len0 .
  have dr: "map result (drop 3 (calculationSteps r)) = [g, g, b]"
    using q(12) unfolding len0 gm pi pb by simp
  show ?thesis
    apply (rule exI [of _ r0], rule exI [of _ r], rule exI [of _ g], rule exI [of _ b])
    apply (intro conjI r0 r q(1) q(2) q(3) q(4) q(5) q(6) gm g_def pi pb b_def st tk dr)
    done
qed

lemma tech_reference_valid:
  "validateScenario fixed_host
     (scenario_of tech (Fin 400) (Fin 150000) (Fin 15) (Fin 1000000) (Some (Fin 60))) = []"
  by (simp add: validateScenario_Nil_iff cross_Nil_iff validator_defs number_defs)

lemma tech_reference_scenario:
  "\<exists>r. calculateTechCompany fixed_host
          (scenario_of tech (Fin 400) (Fin 150000) (Fin 15) (Fin 1000000) (Some (Fin 60))) = Inr r
     \<and> totalDeveloperCost r = Fin 60000000 \<and> costAvoidance r = Fin 9000000
     \<and> roiMultiple r = Fin 9
     \<and> grossMarginImprovement r = Some (Fin 5400000)
     \<and> profitImpact r = Some (Fin 5400000)
     \<and> profitBoostPercentage r = Some (Fin 90)
     \<and> length (calculationSteps r) = 6"
proof -
  let ?s = "scenario_of tech (Fin 400) (Fin 150000) (Fin 15) (Fin 1000000) (Some (Fin 60))"
  have tb: "ToBoolean (optional (revenuePercentage ?s))" by (simp add: is_zero_def)
  from traditional_valid_Inr [OF tech_reference_valid] obtain r0 where
    r0: "calculateTraditionalBusiness fixed_host ?s = Inr r0" ..
  then have p0: "projr (calculateTraditionalBusiness fixed_host ?s) = r0" by simp
  from tech_valid_Inr [OF tech_reference_valid tb] obtain r where
    r: "calculateTechCompany fixed_host ?s = Inr r" ..
  then have p: "projr (calculateTechCompany fixed_host ?s) = r" by simp
  note q0 = traditional_valid_projr [OF tech_reference_valid, unfolded p0]
  note q = tech_valid_projr [OF tech_reference_valid tb r0, unfolded p]
  have t: "totalDeveloperCost r = Fin 60000000"
    unfolding q(2) q0(2) by (simp add: Number_multiply_pos)
  have ca: "costAvoidance r = Fin 9000000"
    unfolding q(3) q0(3) by (simp add: Number_multiply_pos Number_divide_pos)
  have rm: "roiMultiple r = Fin 9"
    unfolding q(4) q0(4) by (simp add: Number_multiply_pos Number_divide_pos)
  have gm: "grossMarginImprovement r = Some (Fin 5400000)"
    unfolding q(7) by (simp add: Number_multiply_pos Number_divide_pos)
  have pi: "profitImpact r = Some (Fin 5400000)"
    unfolding q(8) by (rule gm)
  have pb: "profitBoostPercentage r = Some (Fin 90)"
    unfolding q(9) by (simp add: Number_multiply_pos Number_divide_pos js_gt_def)
  have len: "length (calculationSteps r) = 6"
    using arg_cong [OF q(10), of length] arg_cong [OF q0(9), of length] by simp
  show ?thesis
    apply (rule exI [of _ r])
    apply (intro conjI r t ca rm gm pi pb len)
    done
qed

text \<open>
  Claim C2 promises this result for every validated tech scenario whose revenue percentage
  is present. The promise breaks at a revenue percentage of exactly 0: the validator
  accepts it (the range is \<open>[0, 100]\<close>, inclusive), but the presence test
  \<^verbatim>\<open>!scenario.revenuePercentage\<close> of \<open>calculateTechCompany\<close> is true for the number 0, and
  the call fails with the "is required" error although the field is present.
\<close>

theorem C2_zero_revenue_rejected:
  "businessType (scenario_of tech (Fin 400) (Fin 150000) (Fin 15) (Fin 1000000) (Some (Fin 0))) = tech
   \<and> revenuePercentage
       (scenario_of tech (Fin 400) (Fin 150000) (Fin 15) (Fin 1000000) (Some (Fin 0))) = Some (Fin 0)
   \<and> validateScenario fixed_host
       (scenario_of tech (Fin 400) (Fin 150000) (Fin 15) (Fin 1000000) (Some (Fin 0))) = []
   \<and> calculateTechCompany fixed_host
       (scenario_of tech (Fin 400) (Fin 150000) (Fin 15) (Fin 1000000) (Some (Fin 0))) =
       Inl (Error ''Revenue percentage is required for tech company calculations'')"
proof -
  let ?s = "scenario_of tech (Fin 400) (Fin 150000) (Fin 15) (Fin 1000000) (Some (Fin 0))"
  have f: "\<not> ToBoolean (optional (revenuePercentage ?s))"
    by (simp add: is_zero_def)
  show ?thesis
    apply (intro conjI tech_zero_revenue_valid)
      apply simp
     apply simp
    apply (rule calculateTechCompany_falsy [OF tech_zero_revenue_valid f])
    done
qed

section \<open>The validation gate\<close>

text \<open>
  Claim C3. If \<open>validateScenario\<close> returns a non-empty mapping, both entry points fail
  with a single error and produce no result; the message of the error is the text
  \<^verbatim>\<open>Validation failed: \<close> followed by all validation messages, in the order of their
  keys, joined with a comma and a space. If the mapping is empty,
  \<open>calculateTraditionalBusiness\<close> returns a result and \<open>calculateTechCompany\<close> does not fail
  with a validation error.
\<close>

theorem C3_validation_gate:
  "(validateScenario H s \<noteq> [] \<longrightarrow>
       calculateTraditionalBusiness H s =
         Inl (Error (''Validation failed: '' @ join '', '' (Object_values (validateScenario H s))))
     \<and> calculateTechCompany H s =
         Inl (Error (''Validation failed: '' @ join '', '' (Object_values (validateScenario H s)))))
   \<and> (validateScenario H s = [] \<longrightarrow>
       (\<exists>r. calculateTraditionalBusiness H s = Inr r)
     \<and> (\<forall>m. calculateTechCompany H s \<noteq> Inl (Error (''Validation failed: '' @ m))))"
proof (intro conjI impI allI)
  assume "validateScenario H s \<noteq> []"
  then show "calculateTraditionalBusiness H s =
         Inl (Error (''Validation failed: '' @ join '', '' (Object_values (validateScenario H s))))"
    by (rule calculateTraditionalBusiness_invalid)
next
  assume "validateScenario H s \<noteq> []"
  then show "calculateTechCompany H s =
         Inl (Error (''Validation failed: '' @ join '', '' (Object_values (validateScenario H s))))"
    by (rule calculateTechCompany_invalid)
next
  assume "validateScenario H s = []"
  then show "\<exists>r. calculateTraditionalBusiness H s = Inr r"
    by (rule traditional_valid_Inr)
next
  fix m
  assume v: "validateScenario H s = []"
  show "calculateTechCompany H s \<noteq> Inl (Error (''Validation failed: '' @ m))"
    using tech_cases [of H s] v by auto
qed

theorem C3_validation_gate_witness:
  "validateScenario fixed_host (scenario_of traditional NaN NaN (Fin 15) (Fin 2000000) None) \<noteq> []
   \<and> calculateTraditionalBusiness fixed_host
       (scenario_of traditional NaN NaN (Fin 15) (Fin 2000000) None) =
       Inl (Error ''Validation failed: Developer count is required and must be a number, Annual cost per developer is required and must be a number'')
   \<and> calculateTechCompany fixed_host
       (scenario_of traditional NaN NaN (Fin 15) (Fin 2000000) None) =
       Inl (Error ''Validation failed: Developer count is required and must be a number, Annual cost per developer is required and must be a number'')
   \<and> validateScenario fixed_host
       (scenario_of traditional (Fin 1000) (Fin 130000) (Fin 15) (Fin 2000000) None) = []
   \<and> (\<exists>r. calculateTraditionalBusiness fixed_host
       (scenario_of traditional (Fin 1000) (Fin 130000) (Fin 15) (Fin 2000000) None) = Inr r)
   \<and> calculateTechCompany fixed_host
       (scenario_of traditional (Fin 1000) (Fin 130000) (Fin 15) (Fin 2000000) None) \<noteq>
       Inl (Error (''Validation failed: '' @ []))"
proof -
  let ?bad = "scenario_of traditional NaN NaN (Fin 15) (Fin 2000000) None"
  let ?good = "scenario_of traditional (Fin 1000) (Fin 130000) (Fin 15) (Fin 2000000) None"
  have n: "validateScenario fixed_host ?bad \<noteq> []"
    by (simp add: invalid_example)
  have j: "''Validation failed: '' @ join '', '' (Object_values (validateScenario fixed_host ?bad))
      = ''Validation failed: Developer count is required and must be a number, Annual cost per developer is required and must be a number''"
    by (simp add: invalid_example Object_values_def)
  note bad = C3_validation_gate [of fixed_host ?bad, THEN conjunct1, rule_format, OF n, unfolded j]
  note good = C3_validation_gate [of fixed_host ?good, THEN conjunct2, rule_format,
      OF bank_example_valid]
  show ?thesis
    apply (intro conjI n bank_example_valid)
       apply (rule bad [THEN conjunct1])
      apply (rule bad [THEN conjunct2])
     apply (rule good [THEN conjunct1])
    apply (rule good [THEN conjunct2, rule_format])
    done
qed

section \<open>Cross-field heuristics\<close>

text \<open>
  Claim C5. \<open>validateScenario\<close> evaluates the cross-field heuristics after the per-field
  checks and merges them into the same mapping, so that a cross-field message replaces
  the per-field message of the same key. With
  \<open>costRatio = solutionCost / (developerCount * annualCostPerDeveloper)\<close>: the key
  \<open>solutionCost\<close> is flagged when \<open>costRatio > 0.5\<close>, the key
  \<open>ctsSwImprovementPercent\<close> when \<open>costRatio < 0.005\<close> and
  \<open>ctsSwImprovementPercent > 15\<close>, and the key \<open>general\<close> when \<open>developerCount < 10\<close>
  and \<open>solutionCost > 500000\<close>. The witness is the scenario with 10 developers at
  100000 each and a solution cost of 600000: its \<open>solutionCost\<close> key carries the
  cross-field message although 600000 passes the range check of the field.
\<close>

theorem C5_cross_field_merge:
  "(let totalDeveloperCost = Number_multiply (developerCount s) (annualCostPerDeveloper s);
        costRatio = Number_divide (solutionCost s) totalDeveloperCost;
        crossFieldErrors = validateCrossFieldConstraints H s;
        errors = validateScenario H s
    in (map_of crossFieldErrors ''solutionCost'' \<noteq> None \<longleftrightarrow> js_gt costRatio (Fin 0.5))
     \<and> (map_of crossFieldErrors ''ctsSwImprovementPercent'' \<noteq> None \<longleftrightarrow>
          js_lt costRatio (Fin 0.005) \<and> js_gt (ctsSwImprovementPercent s) (Fin 15))
     \<and> (map_of crossFieldErrors ''general'' \<noteq> None \<longleftrightarrow>
          js_lt (developerCount s) (Fin 10) \<and> js_gt (solutionCost s) (Fin 500000))
     \<and> map_of errors ''solutionCost'' =
          (if js_gt costRatio (Fin 0.5) then map_of crossFieldErrors ''solutionCost''
           else validateSolutionCost H (Num (solutionCost s)))
     \<and> map_of errors ''ctsSwImprovementPercent'' =
          (if js_lt costRatio (Fin 0.005) \<and> js_gt (ctsSwImprovementPercent s) (Fin 15)
           then map_of crossFieldErrors ''ctsSwImprovementPercent''
           else validateCtsSwImprovement H (Num (ctsSwImprovementPercent s)))
     \<and> map_of errors ''general'' = map_of crossFieldErrors ''general'')"
proof -
  have sc: "map_of (validateScenario H s) ''solutionCost'' =
          (if js_gt (Number_divide (solutionCost s)
                (Number_multiply (developerCount s) (annualCostPerDeveloper s))) (Fin 0.5)
           then map_of (validateCrossFieldConstraints H s) ''solutionCost''
           else validateSolutionCost H (Num (solutionCost s)))"
    using cross_flags(1) [of H s] by (auto simp: lookup_solutionCost split: option.splits)
  have ct: "map_of (validateScenario H s) ''ctsSwImprovementPercent'' =
          (if js_lt (Number_divide (solutionCost s)
                (Number_multiply (developerCount s) (annualCostPerDeveloper s))) (Fin 0.005)
              \<and> js_gt (ctsSwImprovementPercent s) (Fin 15)
           then map_of (validateCrossFieldConstraints H s) ''ctsSwImprovementPercent''
           else validateCtsSwImprovement H (Num (ctsSwImprovementPercent s)))"
    using cross_flags(2) [of H s] by (auto simp: lookup_ctsSwImprovementPercent split: option.splits)
  show ?thesis
    unfolding Let_def
    by (intro conjI cross_flags sc ct lookup_general)
qed

theorem C5_cross_field_merge_witness:
  "validateSolutionCost fixed_host (Num (Fin 600000)) = None
   \<and> js_gt (Number_divide (Fin 600000) (Number_multiply (Fin 10) (Fin 100000))) (Fin 0.5)
   \<and> map_of (validateScenario fixed_host
         (scenario_of traditional (Fin 10) (Fin 100000) (Fin 15) (Fin 600000) None)) ''solutionCost''
       = map_of (validateCrossFieldConstraints fixed_host
         (scenario_of traditional (Fin 10) (Fin 100000) (Fin 15) (Fin 600000) None)) ''solutionCost''
   \<and> map_of (validateScenario fixed_host
         (scenario_of traditional (Fin 10) (Fin 100000) (Fin 15) (Fin 600000) None)) ''solutionCost''
       \<noteq> None"
proof -
  let ?s = "scenario_of traditional (Fin 10) (Fin 100000) (Fin 15) (Fin 600000) None"
  have v: "validateSolutionCost fixed_host (Num (Fin 600000)) = None"
    by (simp add: validator_defs)
  have g: "js_gt (Number_divide (Fin 600000) (Number_multiply (Fin 10) (Fin 100000))) (Fin 0.5)"
    by (simp add: Number_multiply_pos Number_divide_pos js_gt_def)
  note c = C5_cross_field_merge [of ?s fixed_host, unfolded Let_def scenario_of_sel]
  have e: "map_of (validateScenario fixed_host ?s) ''solutionCost''
       = map_of (validateCrossFieldConstraints fixed_host ?s) ''solutionCost''"
    using c g by simp
  have n: "map_of (validateScenario fixed_host ?s) ''solutionCost'' \<noteq> None"
    unfolding e by (rule c [THEN conjunct1, THEN iffD2, OF g])
  show ?thesis by (intro conjI v g e n)
qed

section \<open>The explicit revenue check\<close>

lemma tech_no_revenue_errors:
  "validateScenario fixed_host
     (scenario_of tech (Fin 400) (Fin 150000) (Fin 15) (Fin 1000000) None) =
     [(''revenuePercentage'', ''Revenue percentage is required for tech companies'')]"
  by (simp add: validateScenario_def validateCrossFieldConstraints_def Let_def
      assign_if_truthy_def Object_assign_def validator_defs number_defs)

text \<open>
  Claim C4 says that a tech scenario without a revenue percentage makes
  \<open>calculateTechCompany\<close> fail with the message of its own presence check. It does
  not: the validator runs first, reports the missing field, and the call fails with the
  validation error. The reference tech scenario without its revenue percentage shows it.
\<close>

theorem C4_counterexample:
  "businessType (scenario_of tech (Fin 400) (Fin 150000) (Fin 15) (Fin 1000000) None) = tech
   \<and> revenuePercentage (scenario_of tech (Fin 400) (Fin 150000) (Fin 15) (Fin 1000000) None) = None
   \<and> calculateTechCompany fixed_host
       (scenario_of tech (Fin 400) (Fin 150000) (Fin 15) (Fin 1000000) None) =
       Inl (Error ''Validation failed: Revenue percentage is required for tech companies'')
   \<and> calculateTechCompany fixed_host
       (scenario_of tech (Fin 400) (Fin 150000) (Fin 15) (Fin 1000000) None) \<noteq>
       Inl (Error ''Revenue percentage is required for tech company calculations'')"
proof -
  let ?s = "scenario_of tech (Fin 400) (Fin 150000) (Fin 15) (Fin 1000000) None"
  have n: "validateScenario fixed_host ?s \<noteq> []"
    by (simp add: tech_no_revenue_errors)
  have c: "calculateTechCompany fixed_host ?s =
       Inl (Error ''Validation failed: Revenue percentage is required for tech companies'')"
    by (simp add: calculateTechCompany_invalid [OF n] tech_no_revenue_errors Object_values_def)
  show ?thesis
    by (intro conjI) (simp_all add: c)
qed

text \<open>
  Claim C4, as amended. For a tech scenario without a revenue percentage,
  \<open>calculateTechCompany\<close> fails with the validation error, whose mapping holds
  "Revenue percentage is required for tech companies" under the key
  \<open>revenuePercentage\<close>. The explicit presence check comes after validation: it raises
  "Revenue percentage is required for tech company calculations" when the scenario passes
  validation and has no revenue percentage, which the validator allows for a scenario
  that is not a tech scenario.
\<close>

theorem C4_missing_revenue:
  "(businessType s = tech \<and> revenuePercentage s = None \<longrightarrow>
      calculateTechCompany H s =
        Inl (Error (''Validation failed: '' @ join '', '' (Object_values (validateScenario H s))))
      \<and> map_of (validateScenario H s) ''revenuePercentage'' =
          Some ''Revenue percentage is required for tech companies'')
   \<and> (validateScenario H s = [] \<and> revenuePercentage s = None \<longrightarrow>
      calculateTechCompany H s =
        Inl (Error ''Revenue percentage is required for tech company calculations''))"
proof (intro conjI impI)
  assume a: "businessType s = tech \<and> revenuePercentage s = None"
  then show l: "map_of (validateScenario H s) ''revenuePercentage'' =
          Some ''Revenue percentage is required for tech companies''"
    by (simp add: lookup_revenuePercentage validateRevenuePercentage_def)
  then have "validateScenario H s \<noteq> []" by auto
  then show "calculateTechCompany H s =
        Inl (Error (''Validation failed: '' @ join '', '' (Object_values (validateScenario H s))))"
    by (rule calculateTechCompany_invalid)
next
  assume a: "validateScenario H s = [] \<and> revenuePercentage s = None"
  then have "\<not> ToBoolean (optional (revenuePercentage s))" by simp
  with a show "calculateTechCompany H s =
        Inl (Error ''Revenue percentage is required for tech company calculations'')"
    by (simp add: calculateTechCompany_falsy)
qed

theorem C4_missing_revenue_witness:
  "businessType (scenario_of tech (Fin 400) (Fin 150000) (Fin 15) (Fin 1000000) None) = tech
   \<and> revenuePercentage (scenario_of tech (Fin 400) (Fin 150000) (Fin 15) (Fin 1000000) None) = None
   \<and> calculateTechCompany fixed_host
       (scenario_of tech (Fin 400) (Fin 150000) (Fin 15) (Fin 1000000) None) =
       Inl (Error (''Validation failed: '' @ join '', '' (Object_values (validateScenario fixed_host
         (scenario_of tech (Fin 400) (Fin 150000) (Fin 15) (Fin 1000000) None)))))
   \<and> map_of (validateScenario fixed_host
         (scenario_of tech (Fin 400) (Fin 150000) (Fin 15) (Fin 1000000) None)) ''revenuePercentage''
       = Some ''Revenue percentage is required for tech companies''
   \<and> validateScenario fixed_host
       (scenario_of traditional (Fin 1000) (Fin 130000) (Fin 15) (Fin 2000000) None) = []
   \<and> revenuePercentage
       (scenario_of traditional (Fin 1000) (Fin 130000) (Fin 15) (Fin 2000000) None) = None
   \<and> calculateTechCompany fixed_host
       (scenario_of traditional (Fin 1000) (Fin 130000) (Fin 15) (Fin 2000000) None) =
       Inl (Error ''Revenue percentage is required for tech company calculations'')"
proof -
  let ?t = "scenario_of tech (Fin 400) (Fin 150000) (Fin 15) (Fin 1000000) None"
  let ?b = "scenario_of traditional (Fin 1000) (Fin 130000) (Fin 15) (Fin 2000000) None"
  have t1: "businessType ?t = tech" and t2: "revenuePercentage ?t = None"
    and b2: "revenuePercentage ?b = None"
    by simp_all
  note first = C4_missing_revenue [of ?t fixed_host, THEN conjunct1, rule_format,
      OF conjI [OF t1 t2]]
  note second = C4_missing_revenue [of ?b fixed_host, THEN conjunct2, rule_format,
      OF conjI [OF bank_example_valid b2]]
  show ?thesis
    by (intro conjI t1 t2 b2 bank_example_valid first [THEN conjunct1] first [THEN conjunct2]
        second)
qed

section \<open>Range boundaries\<close>

lemma validateDeveloperCount_bounds:
  "validateDeveloperCount H (Num (min' (VALIDATION_RANGES DeveloperCount))) = None"
  "validateDeveloperCount H (Num (max' (VALIDATION_RANGES DeveloperCount))) = None"
  "js_lt x (min' (VALIDATION_RANGES DeveloperCount)) \<Longrightarrow> validateDeveloperCount H (Num x) \<noteq> None"
  "js_gt y (max' (VALIDATION_RANGES DeveloperCount)) \<Longrightarrow> validateDeveloperCount H (Num y) \<noteq> None"
  by (cases x; cases y; simp add: validator_defs)+

lemma validateAnnualCostPerDeveloper_bounds:
  "validateAnnualCostPerDeveloper H (Num (min' (VALIDATION_RANGES AnnualCostPerDeveloper))) = None"
  "validateAnnualCostPerDeveloper H (Num (max' (VALIDATION_RANGES AnnualCostPerDeveloper))) = None"
  "js_lt x (min' (VALIDATION_RANGES AnnualCostPerDeveloper)) \<Longrightarrow>
     validateAnnualCostPerDeveloper H (Num x) \<noteq> None"
  "js_gt y (max' (VALIDATION_RANGES AnnualCostPerDeveloper)) \<Longrightarrow>
     validateAnnualCostPerDeveloper H (Num y) \<noteq> None"
  by (cases x; cases y; simp add: validator_defs)+

lemma validateCtsSwImprovement_bounds:
  "validateCtsSwImprovement H (Num (min' (VALIDATION_RANGES CtsSwImprovementPercent))) = None"
  "validateCtsSwImprovement H (Num (max' (VALIDATION_RANGES CtsSwImprovementPercent))) = None"
  "js_lt x (min' (VALIDATION_RANGES CtsSwImprovementPercent)) \<Longrightarrow>
     validateCtsSwImprovement H (Num x) \<noteq> None"
  "js_gt y (max' (VALIDATION_RANGES CtsSwImprovementPercent)) \<Longrightarrow>
     validateCtsSwImprovement H (Num y) \<noteq> None"
  by (cases x; cases y; simp add: validator_defs)+

lemma validateSolutionCost_bounds:
  "validateSolutionCost H (Num (min' (VALIDATION_RANGES SolutionCost))) = None"
  "validateSolutionCost H (Num (max' (VALIDATION_RANGES SolutionCost))) = None"
  "js_lt x (min' (VALIDATION_RANGES SolutionCost)) \<Longrightarrow> validateSolutionCost H (Num x) \<noteq> None"
  "js_gt y (max' (VALIDATION_RANGES SolutionCost)) \<Longrightarrow> validateSolutionCost H (Num y) \<noteq> None"
  by (cases x; cases y; simp add: validator_defs)+

lemma validateRevenuePercentage_bounds:
  "validateRevenuePercentage H (Num (min' (VALIDATION_RANGES RevenuePercentage))) = None"
  "validateRevenuePercentage H (Num (max' (VALIDATION_RANGES RevenuePercentage))) = None"
  "js_lt x (min' (VALIDATION_RANGES RevenuePercentage)) \<Longrightarrow>
     validateRevenuePercentage H (Num x) \<noteq> None"
  "js_gt y (max' (VALIDATION_RANGES RevenuePercentage)) \<Longrightarrow>
     validateRevenuePercentage H (Num y) \<noteq> None"
  by (cases x; cases y; simp add: validator_defs)+

text \<open>
  Claim C6. Every ranged field (developer count in \<open>[1, 50000]\<close>, annual cost per
  developer in \<open>[50000, 300000]\<close>, improvement in \<open>[0.1, 50]\<close>, solution cost in
  \<open>[1000, 100000000]\<close>, revenue percentage in \<open>[0, 100]\<close>) has inclusive bounds: its
  validator returns no error at the minimum and at the maximum, and returns an error for
  every number \<open>x\<close> strictly below the minimum and every number \<open>y\<close> strictly above the
  maximum.
\<close>

theorem C6_inclusive_boundaries:
  "validateDeveloperCount H (Num (min' (VALIDATION_RANGES DeveloperCount))) = None
   \<and> validateDeveloperCount H (Num (max' (VALIDATION_RANGES DeveloperCount))) = None
   \<and> (js_lt x (min' (VALIDATION_RANGES DeveloperCount)) \<longrightarrow>
        validateDeveloperCount H (Num x) \<noteq> None)
   \<and> (js_gt y (max' (VALIDATION_RANGES DeveloperCount)) \<longrightarrow>
        validateDeveloperCount H (Num y) \<noteq> None)
   \<and> validateAnnualCostPerDeveloper H (Num (min' (VALIDATION_RANGES AnnualCostPerDeveloper))) = None
   \<and> validateAnnualCostPerDeveloper H (Num (max' (VALIDATION_RANGES AnnualCostPerDeveloper))) = None
   \<and> (js_lt x (min' (VALIDATION_RANGES AnnualCostPerDeveloper)) \<longrightarrow>
        validateAnnualCostPerDeveloper H (Num x) \<noteq> None)
   \<and> (js_gt y (max' (VALIDATION_RANGES AnnualCostPerDeveloper)) \<longrightarrow>
        validateAnnualCostPerDeveloper H (Num y) \<noteq> None)
   \<and> validateCtsSwImprovement H (Num (min' (VALIDATION_RANGES CtsSwImprovementPercent))) = None
   \<and> validateCtsSwImprovement H (Num (max' (VALIDATION_RANGES CtsSwImprovementPercent))) = None
   \<and> (js_lt x (min' (VALIDATION_RANGES CtsSwImprovementPercent)) \<longrightarrow>
        validateCtsSwImprovement H (Num x) \<noteq> None)
   \<and> (js_gt y (max' (VALIDATION_RANGES CtsSwImprovementPercent)) \<longrightarrow>
        validateCtsSwImprovement H (Num y) \<noteq> None)
   \<and> validateSolutionCost H (Num (min' (VALIDATION_RANGES SolutionCost))) = None
   \<and> validateSolutionCost H (Num (max' (VALIDATION_RANGES SolutionCost))) = None
   \<and> (js_lt x (min' (VALIDATION_RANGES SolutionCost)) \<longrightarrow>
        validateSolutionCost H (Num x) \<noteq> None)
   \<and> (js_gt y (max' (VALIDATION_RANGES SolutionCost)) \<longrightarrow>
        validateSolutionCost H (Num y) \<noteq> None)
   \<and> validateRevenuePercentage H (Num (min' (VALIDATION_RANGES RevenuePercentage))) = None
   \<and> validateRevenuePercentage H (Num (max' (VALIDATION_RANGES RevenuePercentage))) = None
   \<and> (js_lt x (min' (VALIDATION_RANGES RevenuePercentage)) \<longrightarrow>
        validateRevenuePercentage H (Num x) \<noteq> None)
   \<and> (js_gt y (max' (VALIDATION_RANGES RevenuePercentage)) \<longrightarrow>
        validateRevenuePercentage H (Num y) \<noteq> None)"
  by (intro conjI impI validateDeveloperCount_bounds validateAnnualCostPerDeveloper_bounds
      validateCtsSwImprovement_bounds validateSolutionCost_bounds validateRevenuePercentage_bounds)

theorem C6_inclusive_boundaries_witness:
  "js_lt (Fin (-1)) (min' (VALIDATION_RANGES DeveloperCount))
   \<and> validateDeveloperCount fixed_host (Num (Fin (-1))) \<noteq> None
   \<and> js_gt (Fin 100000001) (max' (VALIDATION_RANGES DeveloperCount))
   \<and> validateDeveloperCount fixed_host (Num (Fin 100000001)) \<noteq> None
   \<and> js_lt (Fin (-1)) (min' (VALIDATION_RANGES AnnualCostPerDeveloper))
   \<and> validateAnnualCostPerDeveloper fixed_host (Num (Fin (-1))) \<noteq> None
   \<and> js_gt (Fin 100000001) (max' (VALIDATION_RANGES AnnualCostPerDeveloper))
   \<and> validateAnnualCostPerDeveloper fixed_host (Num (Fin 100000001)) \<noteq> None
   \<and> js_lt (Fin (-1)) (min' (VALIDATION_RANGES CtsSwImprovementPercent))
   \<and> validateCtsSwImprovement fixed_host (Num (Fin (-1))) \<noteq> None
   \<and> js_gt (Fin 100000001) (max' (VALIDATION_RANGES CtsSwImprovementPercent))
   \<and> validateCtsSwImprovement fixed_host (Num (Fin 100000001)) \<noteq> None
   \<and> js_lt (Fin (-1)) (min' (VALIDATION_RANGES SolutionCost))
   \<and> validateSolutionCost fixed_host (Num (Fin (-1))) \<noteq> None
   \<and> js_gt (Fin 100000001) (max' (VALIDATION_RANGES SolutionCost))
   \<and> validateSolutionCost fixed_host (Num (Fin 100000001)) \<noteq> None
   \<and> js_lt (Fin (-1)) (min' (VALIDATION_RANGES RevenuePercentage))
   \<and> validateRevenuePercentage fixed_host (Num (Fin (-1))) \<noteq> None
   \<and> js_gt (Fin 100000001) (max' (VALIDATION_RANGES RevenuePercentage))
   \<and> validateRevenuePercentage fixed_host (Num (Fin 100000001)) \<noteq> None
   \<and> validateDeveloperCount fixed_host (Num (Fin 1)) = None
   \<and> validateDeveloperCount fixed_host (Num (Fin 50000)) = None
   \<and> validateCtsSwImprovement fixed_host (Num (Fin 0.1)) = None
   \<and> validateRevenuePercentage fixed_host (Num (Fin 0)) = None"
proof -
  have lo: "js_lt (Fin (-1)) (min' (VALIDATION_RANGES DeveloperCount))"
    "js_lt (Fin (-1)) (min' (VALIDATION_RANGES AnnualCostPerDeveloper))"
    "js_lt (Fin (-1)) (min' (VALIDATION_RANGES CtsSwImprovementPercent))"
    "js_lt (Fin (-1)) (min' (VALIDATION_RANGES SolutionCost))"
    "js_lt (Fin (-1)) (min' (VALIDATION_RANGES RevenuePercentage))"
    by simp_all
  have hi: "js_gt (Fin 100000001) (max' (VALIDATION_RANGES DeveloperCount))"
    "js_gt (Fin 100000001) (max' (VALIDATION_RANGES AnnualCostPerDeveloper))"
    "js_gt (Fin 100000001) (max' (VALIDATION_RANGES CtsSwImprovementPercent))"
    "js_gt (Fin 100000001) (max' (VALIDATION_RANGES SolutionCost))"
    "js_gt (Fin 100000001) (max' (VALIDATION_RANGES RevenuePercentage))"
    by (simp_all add: js_gt_def)
  note c = C6_inclusive_boundaries [of fixed_host "Fin (-1)" "Fin 100000001"]
  from c lo hi show ?thesis by simp
qed

section \<open>Non-finite inputs\<close>

text \<open>
  Claim C8. No per-field validator lets \<open>NaN\<close>, \<open>Infinity\<close> or \<open>-Infinity\<close> pass. The
  not-a-number test comes first, so \<open>NaN\<close> gets the "is required" message of the field
  (every range comparison with \<open>NaN\<close> is false, so the range checks alone would accept
  it). The infinities are numbers: they get the whole-number message of the developer
  count, or the "greater than zero", minimum or maximum message of the other fields.
\<close>

theorem C8_non_finite_rejected:
  "validateDeveloperCount H (Num NaN) = Some ''Developer count is required and must be a number''
   \<and> validateDeveloperCount H (Num PInf) =
       Some ''Developer count must be a whole number (no decimals)''
   \<and> validateDeveloperCount H (Num NInf) =
       Some ''Developer count must be a whole number (no decimals)''
   \<and> validateAnnualCostPerDeveloper H (Num NaN) =
       Some ''Annual cost per developer is required and must be a number''
   \<and> validateAnnualCostPerDeveloper H (Num PInf) =
       Some (''Annual cost per developer cannot exceed $''
             @ toLocaleString H (max' (VALIDATION_RANGES AnnualCostPerDeveloper))
             @ '' (AWS example: $130K)'')
   \<and> validateAnnualCostPerDeveloper H (Num NInf) =
       Some ''Annual cost per developer must be greater than zero''
   \<and> validateCtsSwImprovement H (Num NaN) =
       Some ''CTS-SW improvement percentage is required and must be a number''
   \<and> validateCtsSwImprovement H (Num PInf) =
       Some (''CTS-SW improvement cannot exceed ''
             @ toString H (max' (VALIDATION_RANGES CtsSwImprovementPercent))
             @ ''% (be realistic about achievable gains)'')
   \<and> validateCtsSwImprovement H (Num NInf) =
       Some ''CTS-SW improvement percentage must be greater than zero''
   \<and> validateSolutionCost H (Num NaN) = Some ''Solution cost is required and must be a number''
   \<and> validateSolutionCost H (Num PInf) =
       Some (''Solution cost cannot exceed $''
             @ toLocaleString H (max' (VALIDATION_RANGES SolutionCost)))
   \<and> validateSolutionCost H (Num NInf) = Some ''Solution cost must be greater than zero''
   \<and> validateRevenuePercentage H (Num NaN) =
       Some ''Revenue percentage is required for tech companies''
   \<and> validateRevenuePercentage H (Num PInf) =
       Some (''Revenue percentage cannot exceed ''
             @ toString H (max' (VALIDATION_RANGES RevenuePercentage)) @ ''%'')
   \<and> validateRevenuePercentage H (Num NInf) =
       Some (''Revenue percentage must be at least ''
             @ toString H (min' (VALIDATION_RANGES RevenuePercentage)) @ ''%'')"
  by (simp add: validator_defs)

section \<open>Presence of the tech-specific fields\<close>

text \<open>
  Claim C7 ties the presence of \<open>grossMarginImprovement\<close>, \<open>profitImpact\<close> and
  \<open>profitBoostPercentage\<close> to \<open>businessType = tech\<close>. Neither entry point reads
  \<open>businessType\<close>: \<open>calculateTraditionalBusiness\<close> accepts a tech scenario (and is called
  on it by \<open>calculateTechCompany\<close> itself) and returns no tech field, and
  \<open>calculateTechCompany\<close> accepts a traditional scenario that carries a revenue
  percentage and returns all three.
\<close>

theorem C7_counterexample:
  "businessType (scenario_of tech (Fin 400) (Fin 150000) (Fin 15) (Fin 1000000) (Some (Fin 60))) = tech
   \<and> \<not> isl (calculateTraditionalBusiness fixed_host
         (scenario_of tech (Fin 400) (Fin 150000) (Fin 15) (Fin 1000000) (Some (Fin 60))))
   \<and> grossMarginImprovement (projr (calculateTraditionalBusiness fixed_host
         (scenario_of tech (Fin 400) (Fin 150000) (Fin 15) (Fin 1000000) (Some (Fin 60))))) = None
   \<and> businessType
         (scenario_of traditional (Fin 1000) (Fin 130000) (Fin 15) (Fin 2000000) (Some (Fin 60)))
       = traditional
   \<and> \<not> isl (calculateTechCompany fixed_host
         (scenario_of traditional (Fin 1000) (Fin 130000) (Fin 15) (Fin 2000000) (Some (Fin 60))))
   \<and> grossMarginImprovement (projr (calculateTechCompany fixed_host
         (scenario_of traditional (Fin 1000) (Fin 130000) (Fin 15) (Fin 2000000) (Some (Fin 60)))))
       \<noteq> None"
proof -
  let ?t = "scenario_of tech (Fin 400) (Fin 150000) (Fin 15) (Fin 1000000) (Some (Fin 60))"
  let ?u = "scenario_of traditional (Fin 1000) (Fin 130000) (Fin 15) (Fin 2000000) (Some (Fin 60))"
  have vu: "validateScenario fixed_host ?u = []"
    by (simp add: validateScenario_Nil_iff cross_Nil_iff validator_defs number_defs)
  have bu: "ToBoolean (optional (revenuePercentage ?u))" by (simp add: is_zero_def)
  from traditional_valid_Inr [OF tech_reference_valid] obtain r1 where
    r1: "calculateTraditionalBusiness fixed_host ?t = Inr r1" ..
  from traditional_valid_Inr [OF vu] obtain r0 where
    r0: "calculateTraditionalBusiness fixed_host ?u = Inr r0" ..
  from tech_valid_Inr [OF vu bu] obtain r2 where
    r2: "calculateTechCompany fixed_host ?u = Inr r2" ..
  have g1: "grossMarginImprovement (projr (calculateTraditionalBusiness fixed_host ?t)) = None"
    by (rule traditional_valid_projr(6) [OF tech_reference_valid])
  have g2: "grossMarginImprovement (projr (calculateTechCompany fixed_host ?u)) \<noteq> None"
    unfolding tech_valid_projr(7) [OF vu bu r0] by simp
  show ?thesis
    apply (intro conjI g1 g2)
       apply simp
      apply (simp add: r1)
     apply simp
    apply (simp add: r2)
    done
qed

text \<open>
  Claim C7, as amended. The entry point decides: a result of
  \<open>calculateTraditionalBusiness\<close> never has a tech-specific field, and a result of
  \<open>calculateTechCompany\<close> always has all three, for every scenario the entry point
  accepts and whatever its \<open>businessType\<close>.
\<close>

theorem C7_fields_by_entry_point:
  "(calculateTraditionalBusiness H s = Inr r \<longrightarrow>
      grossMarginImprovement r = None \<and> profitImpact r = None \<and> profitBoostPercentage r = None)
   \<and> (calculateTechCompany H s = Inr r' \<longrightarrow>
      grossMarginImprovement r' \<noteq> None \<and> profitImpact r' \<noteq> None
      \<and> profitBoostPercentage r' \<noteq> None)"
proof (intro conjI impI)
  assume a: "calculateTraditionalBusiness H s = Inr r"
  then have p: "projr (calculateTraditionalBusiness H s) = r" by simp
  note q = traditional_valid_projr [OF traditional_Inr_valid [OF a], unfolded p]
  show "grossMarginImprovement r = None" by (rule q(6))
  show "profitImpact r = None" by (rule q(7))
  show "profitBoostPercentage r = None" by (rule q(8))
next
  assume a: "calculateTechCompany H s = Inr r'"
  then have p: "projr (calculateTechCompany H s) = r'" by simp
  note v = tech_Inr_valid [OF a]
  from traditional_valid_Inr [OF v(1)] obtain r0 where
    r0: "calculateTraditionalBusiness H s = Inr r0" ..
  note q = tech_valid_projr [OF v r0, unfolded p]
  show g: "grossMarginImprovement r' \<noteq> None" unfolding q(7) by simp
  show "profitImpact r' \<noteq> None" unfolding q(8) by (rule g)
  show "profitBoostPercentage r' \<noteq> None" unfolding q(9) by simp
qed

theorem C7_fields_by_entry_point_witness:
  "(\<exists>r. calculateTraditionalBusiness fixed_host
          (scenario_of tech (Fin 400) (Fin 150000) (Fin 15) (Fin 1000000) (Some (Fin 60))) = Inr r
       \<and> grossMarginImprovement r = None \<and> profitImpact r = None
       \<and> profitBoostPercentage r = None)
   \<and> (\<exists>r'. calculateTechCompany fixed_host
          (scenario_of tech (Fin 400) (Fin 150000) (Fin 15) (Fin 1000000) (Some (Fin 60))) = Inr r'
       \<and> grossMarginImprovement r' \<noteq> None \<and> profitImpact r' \<noteq> None
       \<and> profitBoostPercentage r' \<noteq> None)"
proof -
  let ?t = "scenario_of tech (Fin 400) (Fin 150000) (Fin 15) (Fin 1000000) (Some (Fin 60))"
  have bt: "ToBoolean (optional (revenuePercentage ?t))" by (simp add: is_zero_def)
  from traditional_valid_Inr [OF tech_reference_valid] obtain r1 where
    r1: "calculateTraditionalBusiness fixed_host ?t = Inr r1" ..
  from tech_valid_Inr [OF tech_reference_valid bt] obtain r2 where
    r2: "calculateTechCompany fixed_host ?t = Inr r2" ..
  note a = C7_fields_by_entry_point [of fixed_host ?t r1 r2, THEN conjunct1, rule_format, OF r1]
  note b = C7_fields_by_entry_point [of fixed_host ?t r1 r2, THEN conjunct2, rule_format, OF r2]
  show ?thesis
    apply (intro conjI)
     apply (rule exI [of _ r1])
     apply (intro conjI r1 a [THEN conjunct1] a [THEN conjunct2, THEN conjunct1]
        a [THEN conjunct2, THEN conjunct2])
    apply (rule exI [of _ r2])
    apply (intro conjI r2 b [THEN conjunct1] b [THEN conjunct2, THEN conjunct1]
        b [THEN conjunct2, THEN conjunct2])
    done
qed

section \<open>A revenue percentage of zero\<close>

lemma js_gt_Fin: "js_gt (Fin x) (Fin y) = (y < x)"
  by (simp add: js_gt_def)

text \<open>
  Claim C9 says that a tech scenario with a revenue percentage of exactly 0 and every
  other field within its range passes \<open>validateScenario\<close> and is then rejected by the
  presence check of \<open>calculateTechCompany\<close>. Fields within their ranges do not make the
  mapping empty: a cross-field heuristic may still fire. With 10 developers at 100000
  each and a solution cost of 600000, every field passes its own check, the cost-ratio
  heuristic flags \<open>solutionCost\<close>, and the call fails with the validation error instead.
\<close>

theorem C9_counterexample:
  "businessType (scenario_of tech (Fin 10) (Fin 100000) (Fin 10) (Fin 600000) (Some (Fin 0))) = tech
   \<and> revenuePercentage
       (scenario_of tech (Fin 10) (Fin 100000) (Fin 10) (Fin 600000) (Some (Fin 0))) = Some (Fin 0)
   \<and> validateDeveloperCount fixed_host (Num (Fin 10)) = None
   \<and> validateAnnualCostPerDeveloper fixed_host (Num (Fin 100000)) = None
   \<and> validateCtsSwImprovement fixed_host (Num (Fin 10)) = None
   \<and> validateSolutionCost fixed_host (Num (Fin 600000)) = None
   \<and> validateRevenuePercentage fixed_host (Num (Fin 0)) = None
   \<and> validateScenario fixed_host
       (scenario_of tech (Fin 10) (Fin 100000) (Fin 10) (Fin 600000) (Some (Fin 0))) \<noteq> []
   \<and> calculateTechCompany fixed_host
       (scenario_of tech (Fin 10) (Fin 100000) (Fin 10) (Fin 600000) (Some (Fin 0))) \<noteq>
       Inl (Error ''Revenue percentage is required for tech company calculations'')"
proof -
  let ?s = "scenario_of tech (Fin 10) (Fin 100000) (Fin 10) (Fin 600000) (Some (Fin 0))"
  have c: "validateCrossFieldConstraints fixed_host ?s \<noteq> []"
    by (simp add: cross_Nil_iff Number_multiply_pos Number_divide_pos js_gt_Fin)
  have n: "validateScenario fixed_host ?s \<noteq> []"
    using c by (simp add: validateScenario_Nil_iff)
  have e: "calculateTechCompany fixed_host ?s \<noteq>
       Inl (Error ''Revenue percentage is required for tech company calculations'')"
    by (simp add: calculateTechCompany_invalid [OF n])
  show ?thesis
    by (intro conjI n e) (simp_all add: validator_defs)
qed

text \<open>
  Claim C9, as amended. For a tech scenario with a revenue percentage of exactly 0, whose
  other fields pass their per-field checks and on which no cross-field heuristic fires,
  \<open>validateScenario\<close> returns the empty mapping (0 is inside the inclusive range, and
  the validator has no greater-than-zero rule for this field), and \<open>calculateTechCompany\<close>
  fails with "Revenue percentage is required for tech company calculations", because its
  presence check treats the number 0 as missing.
\<close>

theorem C9_zero_revenue_rejected_after_validation:
  assumes "businessType s = tech" and "revenuePercentage s = Some (Fin 0)"
    and "validateDeveloperCount H (Num (developerCount s)) = None"
    and "validateAnnualCostPerDeveloper H (Num (annualCostPerDeveloper s)) = None"
    and "validateCtsSwImprovement H (Num (ctsSwImprovementPercent s)) = None"
    and "validateSolutionCost H (Num (solutionCost s)) = None"
    and "validateCrossFieldConstraints H s = []"
  shows "validateRevenuePercentage H (optional (revenuePercentage s)) = None
    \<and> validateScenario H s = []
    \<and> calculateTechCompany H s =
        Inl (Error ''Revenue percentage is required for tech company calculations'')"
proof -
  have r: "validateRevenuePercentage H (optional (revenuePercentage s)) = None"
    by (simp add: assms(2) validateRevenuePercentage_None_iff)
  have v: "validateScenario H s = []"
    unfolding validateScenario_Nil_iff using assms r by simp
  have f: "\<not> ToBoolean (optional (revenuePercentage s))"
    by (simp add: assms(2) is_zero_def)
  show ?thesis
    by (intro conjI r v calculateTechCompany_falsy [OF v f])
qed

theorem C9_zero_revenue_rejected_after_validation_witness:
  "businessType (scenario_of tech (Fin 1000) (Fin 130000) (Fin 15) (Fin 2000000) (Some (Fin 0))) = tech
   \<and> revenuePercentage
       (scenario_of tech (Fin 1000) (Fin 130000) (Fin 15) (Fin 2000000) (Some (Fin 0)))
       = Some (Fin 0)
   \<and> validateDeveloperCount fixed_host (Num (Fin 1000)) = None
   \<and> validateAnnualCostPerDeveloper fixed_host (Num (Fin 130000)) = None
   \<and> validateCtsSwImprovement fixed_host (Num (Fin 15)) = None
   \<and> validateSolutionCost fixed_host (Num (Fin 2000000)) = None
   \<and> validateCrossFieldConstraints fixed_host
       (scenario_of tech (Fin 1000) (Fin 130000) (Fin 15) (Fin 2000000) (Some (Fin 0))) = []
   \<and> validateScenario fixed_host
       (scenario_of tech (Fin 1000) (Fin 130000) (Fin 15) (Fin 2000000) (Some (Fin 0))) = []
   \<and> calculateTechCompany fixed_host
       (scenario_of tech (Fin 1000) (Fin 130000) (Fin 15) (Fin 2000000) (Some (Fin 0))) =
       Inl (Error ''Revenue percentage is required for tech company calculations'')"
proof -
  let ?s = "scenario_of tech (Fin 1000) (Fin 130000) (Fin 15) (Fin 2000000) (Some (Fin 0))"
  have h1: "businessType ?s = tech" and h2: "revenuePercentage ?s = Some (Fin 0)"
    by simp_all
  have d: "validateDeveloperCount fixed_host (Num (Fin 1000)) = None"
    and a: "validateAnnualCostPerDeveloper fixed_host (Num (Fin 130000)) = None"
    and c: "validateCtsSwImprovement fixed_host (Num (Fin 15)) = None"
    and k: "validateSolutionCost fixed_host (Num (Fin 2000000)) = None"
    by (simp_all add: validator_defs)
  have x: "validateCrossFieldConstraints fixed_host ?s = []"
    by (simp add: cross_Nil_iff Number_multiply_pos Number_divide_pos js_gt_Fin)
  have d': "validateDeveloperCount fixed_host (Num (developerCount ?s)) = None"
    and a': "validateAnnualCostPerDeveloper fixed_host (Num (annualCostPerDeveloper ?s)) = None"
    and c': "validateCtsSwImprovement fixed_host (Num (ctsSwImprovementPercent ?s)) = None"
    and k': "validateSolutionCost fixed_host (Num (solutionCost ?s)) = None"
    using d a c k by simp_all
  note t = C9_zero_revenue_rejected_after_validation [OF h1 h2 d' a' c' k' x]
  show ?thesis
    by (intro conjI h1 h2 d a c k x t [THEN conjunct2, THEN conjunct1]
        t [THEN conjunct2, THEN conjunct2])
qed

section \<open>The baseline profit of a validated scenario\<close>

text \<open>
  Claim C10. On every scenario that passes \<open>validateScenario\<close>, the estimated current
  profit that \<open>calculateTechCompany\<close> computes, \<open>totalDeveloperCost * 0.10\<close> with
  \<open>totalDeveloperCost = developerCount * annualCostPerDeveloper\<close>, is a finite number
  strictly above zero (at least one developer, at least 50000 each), so the guard
  \<open>estimatedCurrentProfit > 0\<close> holds and the zero branch is never taken. Every result
  of \<open>calculateTechCompany\<close> carries that \<open>totalDeveloperCost\<close>, has
  \<open>profitImpact = grossMarginImprovement = costAvoidance * (revenuePercentage / 100)\<close>,
  and has \<open>profitBoostPercentage = (profitImpact / estimatedCurrentProfit) * 100\<close> with
  this same positive divisor, which is also the result of step 6. Such results exist:
  the call succeeds whenever the revenue percentage is truthy.
\<close>

theorem C10_baseline_profit_positive:
  assumes "validateScenario H s = []"
  shows "(let total = Number_multiply (developerCount s) (annualCostPerDeveloper s);
              estimatedCurrentProfit = Number_multiply total (Fin 0.10);
              avoided = Number_multiply total (Number_divide (ctsSwImprovementPercent s) (Fin 100));
              margin = Number_multiply avoided
                         (Number_divide (ToNumber (optional (revenuePercentage s))) (Fin 100));
              boost = Number_multiply (Number_divide margin estimatedCurrentProfit) (Fin 100)
          in js_gt estimatedCurrentProfit (Fin 0)
           \<and> (\<exists>e. estimatedCurrentProfit = Fin e \<and> 0 < e)
           \<and> (\<forall>r. calculateTechCompany H s = Inr r \<longrightarrow>
                  totalDeveloperCost r = total
                \<and> costAvoidance r = avoided
                \<and> grossMarginImprovement r = Some margin
                \<and> profitImpact r = Some margin
                \<and> profitBoostPercentage r = Some boost
                \<and> map result (drop 3 (calculationSteps r)) = [margin, margin, boost])
           \<and> (ToBoolean (optional (revenuePercentage s)) \<longrightarrow>
                  (\<exists>r. calculateTechCompany H s = Inr r)))"
proof -
  let ?total = "Number_multiply (developerCount s) (annualCostPerDeveloper s)"
  let ?est = "Number_multiply ?total (Fin 0.10)"
  let ?avoided = "Number_multiply ?total (Number_divide (ctsSwImprovementPercent s) (Fin 100))"
  let ?margin = "Number_multiply ?avoided
                   (Number_divide (ToNumber (optional (revenuePercentage s))) (Fin 100))"
  let ?boost = "Number_multiply (Number_divide ?margin ?est) (Fin 100)"
  from valid_scenario_fields [OF assms] obtain d a c k where
    f: "developerCount s = Fin d \<and> 1 \<le> d \<and> d \<le> 50000 \<and> d = of_int \<lfloor>d\<rfloor>
           \<and> annualCostPerDeveloper s = Fin a \<and> 50000 \<le> a \<and> a \<le> 300000
           \<and> ctsSwImprovementPercent s = Fin c \<and> 0.1 \<le> c \<and> c \<le> 50
           \<and> solutionCost s = Fin k \<and> 1000 \<le> k \<and> k \<le> 100000000"
    by (elim exE)
  have fd: "developerCount s = Fin d" and fa: "annualCostPerDeveloper s = Fin a"
    and d1: "1 \<le> d" and a1: "50000 \<le> a"
    using f by simp_all
  have pa: "0 < a" using a1 by simp
  have da: "0 < d * a" using d1 pa by (intro mult_pos_pos) simp_all
  have e: "?est = Fin (d * a * 0.10)"
    unfolding fd fa Number_multiply_pos [OF pa] by (simp add: Number_multiply_pos)
  have e0: "0 < d * a * 0.10" using da by simp
  have fin: "\<exists>e. ?est = Fin e \<and> 0 < e"
    by (rule exI [of _ "d * a * 0.10"]) (intro conjI e e0)
  have est: "js_gt ?est (Fin 0)"
    unfolding e js_gt_Fin by (rule e0)
  have res: "totalDeveloperCost r = ?total
                \<and> costAvoidance r = ?avoided
                \<and> grossMarginImprovement r = Some ?margin
                \<and> profitImpact r = Some ?margin
                \<and> profitBoostPercentage r = Some ?boost
                \<and> map result (drop 3 (calculationSteps r)) = [?margin, ?margin, ?boost]"
    if a: "calculateTechCompany H s = Inr r" for r
  proof -
    from a have p: "projr (calculateTechCompany H s) = r" by simp
    note v = tech_Inr_valid [OF a]
    from traditional_valid_Inr [OF v(1)] obtain r0 where
      r0: "calculateTraditionalBusiness H s = Inr r0" ..
    then have p0: "projr (calculateTraditionalBusiness H s) = r0" by simp
    note q0 = traditional_valid_projr [OF v(1), unfolded p0]
    note q = tech_valid_projr [OF v r0, unfolded p]
    have len0: "length (calculationSteps r0) = 3"
      using arg_cong [OF q0(9), of length] by simp
    have t: "totalDeveloperCost r = ?total"
      unfolding q(2) by (rule q0(2))
    have ca: "costAvoidance r = ?avoided"
      unfolding q(3) by (rule q0(3))
    have gm: "grossMarginImprovement r = Some ?margin"
      by (rule q(7))
    have pi: "profitImpact r = Some ?margin"
      unfolding q(8) by (rule gm)
    have pb: "profitBoostPercentage r = Some ?boost"
      unfolding q(9) using est by simp
    have dr: "map result (drop 3 (calculationSteps r)) = [?margin, ?margin, ?boost]"
      using q(12) unfolding len0 gm pi pb by simp
    show ?thesis
      by (intro conjI t ca gm pi pb dr)
  qed
  have ex: "\<exists>r. calculateTechCompany H s = Inr r"
    if "ToBoolean (optional (revenuePercentage s))"
    using tech_valid_Inr [OF assms that] .
  show ?thesis
    unfolding Let_def
    by (intro conjI est fin allI impI res ex)
qed

theorem C10_baseline_profit_positive_witness:
  "validateScenario fixed_host
     (scenario_of tech (Fin 400) (Fin 150000) (Fin 15) (Fin 1000000) (Some (Fin 60))) = []
   \<and> js_gt (Number_multiply (Number_multiply (Fin 400) (Fin 150000)) (Fin 0.10)) (Fin 0)
   \<and> Number_multiply (Number_multiply (Fin 400) (Fin 150000)) (Fin 0.10) = Fin 6000000
   \<and> ToBoolean (optional (revenuePercentage
       (scenario_of tech (Fin 400) (Fin 150000) (Fin 15) (Fin 1000000) (Some (Fin 60)))))
   \<and> (\<exists>r. calculateTechCompany fixed_host
          (scenario_of tech (Fin 400) (Fin 150000) (Fin 15) (Fin 1000000) (Some (Fin 60))) = Inr r
        \<and> totalDeveloperCost r = Fin 60000000
        \<and> costAvoidance r = Fin 9000000
        \<and> grossMarginImprovement r = Some (Fin 5400000)
        \<and> profitImpact r = Some (Fin 5400000)
        \<and> profitBoostPercentage r = Some (Fin 90)
        \<and> map result (drop 3 (calculationSteps r)) = [Fin 5400000, Fin 5400000, Fin 90])"
proof -
  let ?t = "scenario_of tech (Fin 400) (Fin 150000) (Fin 15) (Fin 1000000) (Some (Fin 60))"
  have total: "Number_multiply (Fin 400) (Fin 150000) = Fin 60000000"
    by (simp add: Number_multiply_pos)
  have estv: "Number_multiply (Fin 60000000) (Fin 0.10) = Fin 6000000"
    by (simp add: Number_multiply_pos)
  have avoided: "Number_multiply (Fin 60000000) (Number_divide (Fin 15) (Fin 100)) = Fin 9000000"
    by (simp add: Number_multiply_pos Number_divide_pos)
  have margin: "Number_multiply (Fin 9000000) (Number_divide (Fin 60) (Fin 100)) = Fin 5400000"
    by (simp add: Number_multiply_pos Number_divide_pos)
  have boost: "Number_multiply (Number_divide (Fin 5400000) (Fin 6000000)) (Fin 100) = Fin 90"
    by (simp add: Number_multiply_pos Number_divide_pos)
  note c = C10_baseline_profit_positive [OF tech_reference_valid,
      unfolded Let_def scenario_of_sel optional.simps ToNumber.simps total estv avoided margin boost]
  have bt: "ToBoolean (optional (revenuePercentage ?t))" by (simp add: is_zero_def)
  have bt': "ToBoolean (Num (Fin 60))" by (simp add: is_zero_def)
  have est: "js_gt (Number_multiply (Number_multiply (Fin 400) (Fin 150000)) (Fin 0.10)) (Fin 0)"
    unfolding total estv by (rule c [THEN conjunct1])
  have estv': "Number_multiply (Number_multiply (Fin 400) (Fin 150000)) (Fin 0.10) = Fin 6000000"
    unfolding total by (rule estv)
  from c [THEN conjunct2, THEN conjunct2, THEN conjunct2, rule_format, OF bt'] obtain r where
    r: "calculateTechCompany fixed_host ?t = Inr r" ..
  note f = c [THEN conjunct2, THEN conjunct2, THEN conjunct1, rule_format, OF r]
  show ?thesis
    apply (intro conjI tech_reference_valid est estv' bt)
    apply (rule exI [of _ r])
    apply (intro conjI r f [THEN conjunct1] f [THEN conjunct2, THEN conjunct1]
        f [THEN conjunct2, THEN conjunct2, THEN conjunct1]
        f [THEN conjunct2, THEN conjunct2, THEN conjunct2, THEN conjunct1]
        f [THEN conjunct2, THEN conjunct2, THEN conjunct2, THEN conjunct2, THEN conjunct1]
        f [THEN conjunct2, THEN conjunct2, THEN conjunct2, THEN conjunct2, THEN conjunct2])
    done
qed

end
